theory Spec2Isabelle
  imports Complex_Main "HOL-Library.Word" "HOL-Library.Sublist" "HOL-Library.AList"
begin

section \<open>JavaScript strings\<close>

text \<open>
  The scripts of the repository are Node.js programs. A JavaScript string is a sequence
  of 16-bit code units, and every string method used by the scripts (\<open>includes\<close>,
  \<open>split\<close>, \<open>replace\<close>, the regular expressions) works on code units. The
  model keeps that: a string is a list of 16-bit words. \<open>js\<close> turns an ASCII literal
  into such a string; literals with Cyrillic letters or emoji are written out as code units.
\<close>

type_synonym jsstring = "16 word list"

definition js :: "string \<Rightarrow> jsstring" where
  "js s = map of_char s"

text \<open>\<open>s.includes(pat)\<close>: \<open>pat\<close> occurs in \<open>s\<close> at some index.\<close>

fun includes_str :: "jsstring \<Rightarrow> jsstring \<Rightarrow> bool" where
  "includes_str [] pat = (pat = [])"
| "includes_str (c # cs) pat = (prefix pat (c # cs) \<or> includes_str cs pat)"

text \<open>\<open>s.split(sep)\<close> for a separator of one code unit: never the empty list,
  \<open>''.split(sep)\<close> is \<open>['']\<close>.\<close>

fun split_unit :: "16 word \<Rightarrow> jsstring \<Rightarrow> jsstring list" where
  "split_unit sep [] = [[]]"
| "split_unit sep (c # cs) =
     (if c = sep then [] # split_unit sep cs
      else (case split_unit sep cs of
              [] \<Rightarrow> [[c]]
            | p # ps \<Rightarrow> (c # p) # ps))"

text \<open>\<open>parts.join(sep)\<close>.\<close>

fun join_str :: "jsstring \<Rightarrow> jsstring list \<Rightarrow> jsstring" where
  "join_str sep [] = []"
| "join_str sep [p] = p"
| "join_str sep (p # q # ps) = p @ sep @ join_str sep (q # ps)"

text \<open>
  The class \<open>\s\<close> of a JavaScript regular expression: white space and line
  terminators, as code units.
\<close>

definition isSpace :: "16 word \<Rightarrow> bool" where
  "isSpace c \<longleftrightarrow>
     c \<in> {0x09, 0x0A, 0x0B, 0x0C, 0x0D, 0x20, 0xA0, 0x1680, 0x2028, 0x2029,
          0x202F, 0x205F, 0x3000, 0xFEFF}
     \<or> (0x2000 \<le> c \<and> c \<le> 0x200A)"

text \<open>Line terminators: where \<open>^\<close> and \<open>$\<close> match under the flag \<open>m\<close>,
  and what \<open>.\<close> does not match.\<close>

definition isLineTerminator :: "16 word \<Rightarrow> bool" where
  "isLineTerminator c \<longleftrightarrow> c \<in> {0x0A, 0x0D, 0x2028, 0x2029}"

text \<open>The class \<open>\d\<close>.\<close>

definition isDigit :: "16 word \<Rightarrow> bool" where
  "isDigit c \<longleftrightarrow> 0x30 \<le> c \<and> c \<le> 0x39"

text \<open>
  \<open>s.split(/\s+/)\<close>: the pieces between maximal runs of white space. A string that
  starts or ends with white space gives an empty first or last piece, and the empty string
  gives one empty piece.
\<close>

function split_ws :: "jsstring \<Rightarrow> jsstring list" where
  "split_ws [] = [[]]"
| "split_ws (c # cs) =
     (if isSpace c then [] # split_ws (dropWhile isSpace cs)
      else (case split_ws cs of
              [] \<Rightarrow> [[c]]
            | p # ps \<Rightarrow> (c # p) # ps))"
  by pat_completeness auto
termination
  by (relation "measure length") (auto simp: less_Suc_eq_le length_dropWhile_le)

text \<open>\<open>s.split(/\s+/).filter(word => word.length > 0).length\<close>, the word count
  that all the scripts use.\<close>

definition count_words :: "jsstring \<Rightarrow> nat" where
  "count_words s = length (filter (\<lambda>word. length word > 0) (split_ws s))"

text \<open>
  The first occurrence of \<open>pat\<close> in \<open>s\<close>: what is before it and what is after
  it. A lazy \<open>[\s\S]*?\<close> followed by a literal stops at the first occurrence of
  the literal.
\<close>

fun split_first :: "jsstring \<Rightarrow> jsstring \<Rightarrow> (jsstring \<times> jsstring) option" where
  "split_first pat [] = (if pat = [] then Some ([], []) else None)"
| "split_first pat (c # cs) =
     (if prefix pat (c # cs) then Some ([], drop (length pat) (c # cs))
      else (case split_first pat cs of
              None \<Rightarrow> None
            | Some (before, rest) \<Rightarrow> Some (c # before, rest)))"

lemma split_first_length:
  "split_first pat s = Some (before, rest) \<Longrightarrow> length before + length pat + length rest = length s"
proof (induction s arbitrary: before)
  case Nil
  then show ?case by (simp split: if_splits)
next
  case (Cons c cs)
  show ?case
  proof (cases "prefix pat (c # cs)")
    case True
    then have "length pat \<le> length (c # cs)"
      by (rule prefix_length_le)
    with True Cons.prems show ?thesis by auto
  next
    case False
    with Cons.prems obtain b where "split_first pat cs = Some (b, rest)" "before = c # b"
      by (auto split: option.splits)
    with Cons.IH show ?thesis by fastforce
  qed
qed

text \<open>
  Regular expressions. Each expression of the scripts is modelled by a function that
  says, for a position in the subject, whether the expression matches there and how
  many code units the match takes. The function sees the code unit before the position
  (\<open>None\<close> at the start of the subject), which is what \<open>^\<close> needs, and the rest of
  the subject from the position on.
\<close>

type_synonym matcher = "16 word option \<Rightarrow> jsstring \<Rightarrow> nat option"

text \<open>
  \<open>s.match(/re/g) || []\<close>: the matches from left to right; after a match the search
  goes on behind it, after a failure one code unit further. \<open>skip\<close> counts the code
  units of the current match that are still to be passed.
\<close>

fun match_all :: "matcher \<Rightarrow> 16 word option \<Rightarrow> nat \<Rightarrow> jsstring \<Rightarrow> jsstring list" where
  "match_all m prev skip [] = []"
| "match_all m prev skip (c # cs) =
     (if skip > 0 then match_all m (Some c) (skip - 1) cs
      else (case m prev (c # cs) of
              Some n \<Rightarrow> take n (c # cs) # match_all m (Some c) (n - 1) cs
            | None \<Rightarrow> match_all m (Some c) 0 cs))"

text \<open>\<open>s.replace(/re/g, '')\<close>: every match is taken out.\<close>

fun remove_all :: "matcher \<Rightarrow> 16 word option \<Rightarrow> nat \<Rightarrow> jsstring \<Rightarrow> jsstring" where
  "remove_all m prev skip [] = []"
| "remove_all m prev skip (c # cs) =
     (if skip > 0 then remove_all m (Some c) (skip - 1) cs
      else (case m prev (c # cs) of
              Some n \<Rightarrow> (if n = 0 then c # remove_all m (Some c) 0 cs
                         else remove_all m (Some c) (n - 1) cs)
            | None \<Rightarrow> c # remove_all m (Some c) 0 cs))"

text \<open>\<open>s.replace(/re/, '')\<close> without the flag \<open>g\<close>: only the first match is taken out.\<close>

fun remove_first :: "matcher \<Rightarrow> 16 word option \<Rightarrow> jsstring \<Rightarrow> jsstring" where
  "remove_first m prev [] = []"
| "remove_first m prev (c # cs) =
     (case m prev (c # cs) of
        Some n \<Rightarrow> drop n (c # cs)
      | None \<Rightarrow> c # remove_first m (Some c) cs)"

text \<open>\<open>re.test(s)\<close>: there is a match somewhere.\<close>

fun test_re :: "matcher \<Rightarrow> 16 word option \<Rightarrow> jsstring \<Rightarrow> bool" where
  "test_re m prev [] = (m prev [] \<noteq> None)"
| "test_re m prev (c # cs) = (m prev (c # cs) \<noteq> None \<or> test_re m (Some c) cs)"

text \<open>
  \<open>/lit1[\s\S]*?lit2/\<close>: the literal \<open>lit1\<close> here, then as little as possible up to
  the first \<open>lit2\<close> behind it.
\<close>

definition delimited :: "jsstring \<Rightarrow> jsstring \<Rightarrow> jsstring \<Rightarrow> nat option" where
  "delimited lit1 lit2 s =
     (if prefix lit1 s then
        (case split_first lit2 (drop (length lit1) s) of
           None \<Rightarrow> None
         | Some (inner, rest) \<Rightarrow> Some (length lit1 + length inner + length lit2))
      else None)"

text \<open>\<open>/```[\s\S]*?```/\<close>, a fenced block of Markdown, and \<open>/```go[\s\S]*?```/\<close>,
  a fenced block of Go code.\<close>

definition fence :: jsstring where
  "fence = js ''```''"

definition fenced_block :: matcher where
  "fenced_block prev s = delimited fence fence s"

definition go_block :: matcher where
  "go_block prev s = delimited (js ''```go'') fence s"

text \<open>\<open>text.replace(/```[\s\S]*?```/g, '')\<close>.\<close>

definition remove_fences :: "jsstring \<Rightarrow> jsstring" where
  "remove_fences s = remove_all fenced_block None 0 s"

text \<open>\<open>/### Uprazhnenie \d+:/\<close>, the heading of an exercise: the literal (the Russian
  word for exercise, in Cyrillic letters, between \<open>###\<close> and a blank), one digit or
  more, a colon.\<close>

definition exercise_heading :: jsstring where
  "exercise_heading =
     [0x23, 0x23, 0x23, 0x20, 0x423, 0x43F, 0x440, 0x430, 0x436, 0x43D, 0x435, 0x43D, 0x438,
      0x435, 0x20]"

definition exercise_match :: matcher where
  "exercise_match prev s =
     (if prefix exercise_heading s then
        (let rest = drop (length exercise_heading) s;
             digits = takeWhile isDigit rest
         in if digits \<noteq> [] \<and> prefix (js '':'') (dropWhile isDigit rest)
            then Some (length exercise_heading + length digits + 1)
            else None)
      else None)"

section \<open>Values, exceptions and the runtime\<close>

text \<open>
  The values that \<open>JSON.parse\<close> and the YAML parser behind \<open>gray-matter\<close>
  produce. Numbers are kept as rationals: the scripts only compare them with integer
  constants. An object is the list of its own properties.
\<close>

datatype jsval =
    JUndefined
  | JNull
  | JBool bool
  | JNum rat
  | JStr jsstring
  | JArr "jsval list"
  | JObj "(jsstring \<times> jsval) list"

text \<open>\<open>!v\<close> is false exactly for the truthy values.\<close>

fun truthy :: "jsval \<Rightarrow> bool" where
  "truthy JUndefined = False"
| "truthy JNull = False"
| "truthy (JBool b) = b"
| "truthy (JNum r) = (r \<noteq> 0)"
| "truthy (JStr s) = (s \<noteq> [])"
| "truthy (JArr xs) = True"
| "truthy (JObj kvs) = True"

text \<open>
  \<open>v[key]\<close> and \<open>v.key\<close>. Reading a property of \<open>undefined\<close> or \<open>null\<close>
  throws a TypeError (\<open>None\<close>); a missing property is \<open>undefined\<close>. Strings and
  arrays have their \<open>length\<close>. The keys that the scripts read are not properties of any
  prototype, so only own properties are looked up.
\<close>

fun get_prop :: "jsval \<Rightarrow> jsstring \<Rightarrow> jsval option" where
  "get_prop JUndefined key = None"
| "get_prop JNull key = None"
| "get_prop (JBool b) key = Some JUndefined"
| "get_prop (JNum r) key = Some JUndefined"
| "get_prop (JStr s) key = Some (if key = js ''length'' then JNum (of_nat (length s)) else JUndefined)"
| "get_prop (JArr xs) key = Some (if key = js ''length'' then JNum (of_nat (length xs)) else JUndefined)"
| "get_prop (JObj kvs) key = Some (case map_of kvs key of None \<Rightarrow> JUndefined | Some v \<Rightarrow> v)"

text \<open>\<open>v[key]\<close> where \<open>v\<close> is known not to be \<open>undefined\<close> or \<open>null\<close>.\<close>

definition field :: "jsval \<Rightarrow> jsstring \<Rightarrow> jsval" where
  "field v key = (case get_prop v key of None \<Rightarrow> JUndefined | Some x \<Rightarrow> x)"

text \<open>\<open>Array.isArray(v)\<close>, and the elements of a value that is an array.\<close>

fun is_array :: "jsval \<Rightarrow> bool" where
  "is_array (JArr xs) = True"
| "is_array v = False"

fun array_items :: "jsval \<Rightarrow> jsval list" where
  "array_items (JArr xs) = xs"
| "array_items v = []"

datatype exn =
    TypeError
  | SyntaxError
  | FsError
  | YamlError
  | PlainError

text \<open>
  What the scripts take from outside the repository: \<open>JSON.parse\<close> (\<open>None\<close> is its
  SyntaxError), \<open>gray-matter\<close> (the front matter as a value and the body; \<open>None\<close>
  when the YAML parser throws), the conversion of a value that is no number, boolean or
  \<open>null\<close> to a number when it is compared with one (\<open>None\<close> is NaN), and whether
  \<open>new URL(s)\<close> accepts a string. Every definition below takes them as a parameter,
  and every theorem holds for all of them.
\<close>

record runtime =
  JSON_parse :: "jsstring \<Rightarrow> jsval option"
  matter :: "jsstring \<Rightarrow> (jsval \<times> jsstring) option"
  ToNumber :: "jsval \<Rightarrow> rat option"
  URL_accepts :: "jsstring \<Rightarrow> bool"

definition to_number :: "runtime \<Rightarrow> jsval \<Rightarrow> rat option" where
  "to_number rt v =
     (case v of
        JNum r \<Rightarrow> Some r
      | JBool b \<Rightarrow> Some (if b then 1 else 0)
      | JNull \<Rightarrow> Some 0
      | JUndefined \<Rightarrow> None
      | _ \<Rightarrow> ToNumber rt v)"

text \<open>\<open>v < r\<close> and \<open>v > r\<close> for a number \<open>r\<close>: false when \<open>v\<close> becomes NaN.\<close>

definition js_less :: "runtime \<Rightarrow> jsval \<Rightarrow> rat \<Rightarrow> bool" where
  "js_less rt v r = (case to_number rt v of None \<Rightarrow> False | Some x \<Rightarrow> x < r)"

definition js_greater :: "runtime \<Rightarrow> jsval \<Rightarrow> rat \<Rightarrow> bool" where
  "js_greater rt v r = (case to_number rt v of None \<Rightarrow> False | Some x \<Rightarrow> x > r)"

section \<open>The file system\<close>

text \<open>
  The tree below the working directory of the process: files with their text, and
  directories with their entries in the order in which \<open>readdir\<close> lists them.
\<close>

datatype node =
    File jsstring
  | Dir "(jsstring \<times> node) list"

definition slash :: "16 word" where
  "slash = 0x2F"

text \<open>
  \<open>path.normalize\<close> on the segments of a path: empty segments and \<open>.\<close> go away,
  \<open>..\<close> takes the segment before it away, and stays when there is none (a relative
  path may leave the directory it starts from).
\<close>

fun normalize_segments :: "jsstring list \<Rightarrow> jsstring list \<Rightarrow> jsstring list" where
  "normalize_segments acc [] = rev acc"
| "normalize_segments acc (seg # segs) =
     (if seg = [] \<or> seg = js ''.'' then normalize_segments acc segs
      else if seg = js ''..'' then
        (case acc of
           [] \<Rightarrow> normalize_segments [seg] segs
         | a # acc' \<Rightarrow>
             if a = js ''..'' then normalize_segments (seg # acc) segs
             else normalize_segments acc' segs)
      else normalize_segments (seg # acc) segs)"

definition path_segments :: "jsstring \<Rightarrow> jsstring list" where
  "path_segments p = normalize_segments [] (split_unit slash p)"

text \<open>
  \<open>path.join(a, b)\<close> for a relative path \<open>a\<close>, which is all the scripts use: the
  arguments that are not empty are joined with a slash and the result is normalised; a
  slash at the end stays.
\<close>

definition path_normalize :: "jsstring \<Rightarrow> jsstring" where
  "path_normalize p =
     (let body = join_str [slash] (path_segments p);
          trailing = (p \<noteq> [] \<and> last p = slash)
      in if body = [] then (if trailing then js ''./'' else js ''.'')
         else if trailing then body @ [slash] else body)"

definition path_join :: "jsstring \<Rightarrow> jsstring \<Rightarrow> jsstring" where
  "path_join a b =
     (if a = [] \<and> b = [] then js ''.''
      else if b = [] then path_normalize a
      else if a = [] then path_normalize b
      else path_normalize (a @ [slash] @ b))"

text \<open>\<open>path.relative(process.cwd(), p)\<close> for a relative path \<open>p\<close>.\<close>

definition path_relative :: "jsstring \<Rightarrow> jsstring" where
  "path_relative p = join_str [slash] (path_segments p)"

text \<open>
  Looking a path up. Absolute paths and paths that leave the working directory point
  outside the tree of the model, where nothing exists. A path that ends with a slash
  names a directory only.
\<close>

fun walk :: "node \<Rightarrow> jsstring list \<Rightarrow> node option" where
  "walk n [] = Some n"
| "walk (File content) (seg # segs) = None"
| "walk (Dir entries) (seg # segs) =
     (case map_of entries seg of
        None \<Rightarrow> None
      | Some n \<Rightarrow> walk n segs)"

definition lookup :: "node \<Rightarrow> jsstring \<Rightarrow> node option" where
  "lookup fs p =
     (if p = [] \<or> hd p = slash \<or> js ''..'' \<in> set (path_segments p) then None
      else (case walk fs (path_segments p) of
              Some (File content) \<Rightarrow> if last p = slash then None else Some (File content)
            | r \<Rightarrow> r))"

definition existsSync :: "node \<Rightarrow> jsstring \<Rightarrow> bool" where
  "existsSync fs p \<longleftrightarrow> lookup fs p \<noteq> None"

text \<open>\<open>readFile(p, 'utf8')\<close>: the text of a file; an exception for anything else.\<close>

definition readFile :: "node \<Rightarrow> jsstring \<Rightarrow> exn + jsstring" where
  "readFile fs p =
     (case lookup fs p of
        Some (File content) \<Rightarrow> Inr content
      | _ \<Rightarrow> Inl FsError)"

text \<open>\<open>readdir(p, { withFileTypes: true })\<close>: the entries of a directory, each with
  its name and whether it is a directory (otherwise it is a file); an exception for
  anything else.\<close>

fun is_dir :: "node \<Rightarrow> bool" where
  "is_dir (Dir entries) = True"
| "is_dir (File content) = False"

definition readdir :: "node \<Rightarrow> jsstring \<Rightarrow> exn + (jsstring \<times> bool) list" where
  "readdir fs p =
     (case lookup fs p of
        Some (Dir entries) \<Rightarrow> Inr (map (\<lambda>(name, n). (name, is_dir n)) entries)
      | _ \<Rightarrow> Inl FsError)"

section \<open>ConfigManager, the loader of the configuration (scripts/content-author.js)\<close>

text \<open>
  The configuration is checked with a schema of the library \<open>zod\<close>. The model has
  the constructors of the library that \<open>ConfigSchema\<close> uses, and \<open>validate\<close>
  collects the issues as \<open>schema.parse\<close> does: each issue with the path of the value
  (keys and indexes) and its code; an object or array of the wrong type gives one issue
  and is not looked into; a missing key is the value \<open>undefined\<close>; keys that the
  schema does not name are ignored. \<open>z.number().positive()\<close> is one constructor, and
  \<open>z.array(t)\<close> is \<open>ZArray 0 t\<close>, \<open>z.array(t).min(1)\<close> is \<open>ZArray 1 t\<close>.
\<close>

datatype path_item = Key jsstring | Index nat

datatype issue_code = invalid_type | too_small | invalid_enum_value

type_synonym zod_issue = "path_item list \<times> issue_code"

datatype schema =
    ZString
  | ZPositiveNumber
  | ZEnum "jsstring list"
  | ZOptional schema
  | ZArray nat schema
  | ZObject "(jsstring \<times> schema) list"

fun validate :: "schema \<Rightarrow> path_item list \<Rightarrow> jsval \<Rightarrow> zod_issue list" where
  "validate ZString path v = (case v of JStr s \<Rightarrow> [] | _ \<Rightarrow> [(path, invalid_type)])"
| "validate ZPositiveNumber path v =
     (case v of
        JNum r \<Rightarrow> if r > 0 then [] else [(path, too_small)]
      | _ \<Rightarrow> [(path, invalid_type)])"
| "validate (ZEnum options) path v =
     (case v of
        JStr s \<Rightarrow> if s \<in> set options then [] else [(path, invalid_enum_value)]
      | _ \<Rightarrow> [(path, invalid_type)])"
| "validate (ZOptional inner) path v = (if v = JUndefined then [] else validate inner path v)"
| "validate (ZArray minimum element) path v =
     (case v of
        JArr xs \<Rightarrow>
          (if length xs < minimum then [(path, too_small)] else [])
          @ concat (map (\<lambda>i. validate element (path @ [Index i]) (xs ! i)) [0..<length xs])
      | _ \<Rightarrow> [(path, invalid_type)])"
| "validate (ZObject shape) path v =
     (case v of
        JObj kvs \<Rightarrow>
          concat (map (\<lambda>entry. validate (snd entry) (path @ [Key (fst entry)]) (field v (fst entry)))
                      shape)
      | _ \<Rightarrow> [(path, invalid_type)])"

text \<open>What \<open>schema.parse\<close> returns for a value without issues: the value without
  the keys that the schema does not name.\<close>

fun parse_result :: "schema \<Rightarrow> jsval \<Rightarrow> jsval" where
  "parse_result (ZOptional inner) v = (if v = JUndefined then v else parse_result inner v)"
| "parse_result (ZArray minimum element) v =
     (case v of JArr xs \<Rightarrow> JArr (map (parse_result element) xs) | _ \<Rightarrow> v)"
| "parse_result (ZObject shape) v =
     (case v of
        JObj kvs \<Rightarrow>
          JObj (concat (map (\<lambda>entry.
                  if map_of kvs (fst entry) = None then []
                  else [(fst entry, parse_result (snd entry) (field v (fst entry)))]) shape))
      | _ \<Rightarrow> v)"
| "parse_result leaf v = v"

text \<open>\<open>ConfigSchema\<close>.\<close>

definition ConfigSchema :: schema where
  "ConfigSchema =
     ZObject
       [(js ''structure'',
           ZObject [(js ''defaultLanguage'', ZString), (js ''languages'', ZArray 1 ZString)]),
        (js ''godojo'',
           ZObject [(js ''platform'', ZOptional ZString), (js ''apiEndpoint'', ZOptional ZString)]),
        (js ''categories'',
           ZArray 0
             (ZObject [(js ''slug'', ZString), (js ''titleRu'', ZString),
                       (js ''titleEn'', ZOptional ZString), (js ''descriptionRu'', ZString),
                       (js ''descriptionEn'', ZOptional ZString), (js ''modules'', ZString),
                       (js ''difficulty'',
                          ZEnum [js ''Beginner'', js ''Intermediate'', js ''Advanced'']),
                       (js ''estimatedHours'', ZPositiveNumber)])),
        (js ''quality'',
           ZObject [(js ''minWords'', ZPositiveNumber), (js ''minCodeExamples'', ZPositiveNumber),
                    (js ''minExercises'', ZPositiveNumber)])]"

text \<open>
  \<open>loadConfig(configPath)\<close>. The errors are named by their codes: the first, second
  and fourth are a \<open>ConfigError\<close>, the third is a \<open>ValidationError\<close> whose details
  are the issues. A read that throws is none of the errors that the handler knows and
  becomes \<open>CONFIG_LOAD_FAILED\<close>.
\<close>

datatype config_failure =
    CONFIG_NOT_FOUND jsstring
  | CONFIG_INVALID_JSON jsstring
  | VALIDATION_SCHEMA_FAILED "zod_issue list"
  | CONFIG_LOAD_FAILED jsstring exn

definition ConfigManager_loadConfig :: "runtime \<Rightarrow> node \<Rightarrow> jsstring \<Rightarrow> config_failure + jsval" where
  "ConfigManager_loadConfig rt fs configPath =
     (if \<not> existsSync fs configPath then Inl (CONFIG_NOT_FOUND configPath)
      else
        (case readFile fs configPath of
           Inl e \<Rightarrow> Inl (CONFIG_LOAD_FAILED configPath e)
         | Inr configContent \<Rightarrow>
             (case JSON_parse rt configContent of
                None \<Rightarrow> Inl (CONFIG_INVALID_JSON configPath)
              | Some rawConfig \<Rightarrow>
                  (let found = validate ConfigSchema [] rawConfig
                   in if found \<noteq> [] then Inl (VALIDATION_SCHEMA_FAILED found)
                      else Inr (parse_result ConfigSchema rawConfig)))))"

text \<open>
  The sections of a configuration, said without the schema: what it is for each of the
  four sections to be there with the right types.
\<close>

fun is_object :: "jsval \<Rightarrow> bool" where
  "is_object (JObj kvs) = True"
| "is_object v = False"

fun is_string :: "jsval \<Rightarrow> bool" where
  "is_string (JStr s) = True"
| "is_string v = False"

definition optional_string :: "jsval \<Rightarrow> bool" where
  "optional_string v \<longleftrightarrow> v = JUndefined \<or> is_string v"

fun positive_number :: "jsval \<Rightarrow> bool" where
  "positive_number (JNum r) = (r > 0)"
| "positive_number v = False"

definition structure_section :: "jsval \<Rightarrow> bool" where
  "structure_section v \<longleftrightarrow>
     is_object v \<and> is_string (field v (js ''defaultLanguage''))
     \<and> is_array (field v (js ''languages''))
     \<and> array_items (field v (js ''languages'')) \<noteq> []
     \<and> list_all is_string (array_items (field v (js ''languages'')))"

definition godojo_section :: "jsval \<Rightarrow> bool" where
  "godojo_section v \<longleftrightarrow>
     is_object v \<and> optional_string (field v (js ''platform''))
     \<and> optional_string (field v (js ''apiEndpoint''))"

definition category_entry :: "jsval \<Rightarrow> bool" where
  "category_entry v \<longleftrightarrow>
     is_object v \<and> is_string (field v (js ''slug'')) \<and> is_string (field v (js ''titleRu''))
     \<and> optional_string (field v (js ''titleEn'')) \<and> is_string (field v (js ''descriptionRu''))
     \<and> optional_string (field v (js ''descriptionEn'')) \<and> is_string (field v (js ''modules''))
     \<and> field v (js ''difficulty'')
         \<in> {JStr (js ''Beginner''), JStr (js ''Intermediate''), JStr (js ''Advanced'')}
     \<and> positive_number (field v (js ''estimatedHours''))"

definition categories_section :: "jsval \<Rightarrow> bool" where
  "categories_section v \<longleftrightarrow> is_array v \<and> list_all category_entry (array_items v)"

definition quality_section :: "jsval \<Rightarrow> bool" where
  "quality_section v \<longleftrightarrow>
     is_object v \<and> positive_number (field v (js ''minWords''))
     \<and> positive_number (field v (js ''minCodeExamples''))
     \<and> positive_number (field v (js ''minExercises''))"

definition well_typed_config :: "jsval \<Rightarrow> bool" where
  "well_typed_config v \<longleftrightarrow>
     is_object v \<and> structure_section (field v (js ''structure''))
     \<and> godojo_section (field v (js ''godojo''))
     \<and> categories_section (field v (js ''categories''))
     \<and> quality_section (field v (js ''quality''))"

section \<open>ContentValidator, the quality rules of the author tool (scripts/content-author.js)\<close>

text \<open>The section \<open>quality\<close> of the configuration.\<close>

record quality =
  minWords :: rat
  minCodeExamples :: rat
  minExercises :: rat

text \<open>\<open>/^---[\s\S]*?---\n/\<close>: without the flag \<open>m\<close> the anchor \<open>^\<close> is the
  start of the text only.\<close>

definition leading_frontmatter :: matcher where
  "leading_frontmatter prev s =
     (if prev = None then delimited (js ''---'') (js ''---\<newline>'') s else None)"

text \<open>
  \<open>#countWords(content)\<close>:
  \<^verbatim>\<open>
  const contentWithoutFrontmatter = content.replace(/^---[\s\S]*?---\n/, '');
  const contentWithoutCode = contentWithoutFrontmatter.replace(/```[\s\S]*?```/g, '');
  return contentWithoutCode.split(/\s+/).filter(word => word.length > 0).length;
  \<close>
\<close>

definition contentWithoutFrontmatter :: "jsstring \<Rightarrow> jsstring" where
  "contentWithoutFrontmatter content = remove_first leading_frontmatter None content"

definition contentWithoutCode :: "jsstring \<Rightarrow> jsstring" where
  "contentWithoutCode content = remove_fences (contentWithoutFrontmatter content)"

definition ContentValidator_countWords :: "jsstring \<Rightarrow> nat" where
  "ContentValidator_countWords content = count_words (contentWithoutCode content)"

definition ContentValidator_countCodeExamples :: "jsstring \<Rightarrow> nat" where
  "ContentValidator_countCodeExamples content = length (match_all go_block None 0 content)"

definition ContentValidator_countExercises :: "jsstring \<Rightarrow> nat" where
  "ContentValidator_countExercises content = length (match_all exercise_match None 0 content)"

text \<open>The entries of the list \<open>errors\<close> of \<open>validateContent\<close>: each message names
  the count and the minimum.\<close>

datatype quality_error =
    WordCountBelowMinimum nat rat
  | CodeExamplesBelowMinimum nat rat
  | ExercisesBelowMinimum nat rat

definition quality_errors :: "quality \<Rightarrow> jsstring \<Rightarrow> quality_error list" where
  "quality_errors standards content =
     (let wordCount = ContentValidator_countWords content;
          codeExamples = ContentValidator_countCodeExamples content;
          exercises = ContentValidator_countExercises content
      in (if of_nat wordCount < minWords standards
          then [WordCountBelowMinimum wordCount (minWords standards)] else [])
       @ (if of_nat codeExamples < minCodeExamples standards
          then [CodeExamplesBelowMinimum codeExamples (minCodeExamples standards)] else [])
       @ (if of_nat exercises < minExercises standards
          then [ExercisesBelowMinimum exercises (minExercises standards)] else []))"

text \<open>
  \<open>validateContent(filePath)\<close> throws a ValidationError when the file is missing
  (code \<open>VALIDATION_FILE_NOT_FOUND\<close>) and when the list of errors is not empty (code
  \<open>VALIDATION_QUALITY_FAILED\<close>, with the list); a failing read throws as it is.
\<close>

datatype validation_failure =
    VALIDATION_FILE_NOT_FOUND jsstring
  | VALIDATION_QUALITY_FAILED jsstring "quality_error list"
  | ReadThrows exn

definition ContentValidator_validateContent ::
    "node \<Rightarrow> quality \<Rightarrow> jsstring \<Rightarrow> validation_failure + unit" where
  "ContentValidator_validateContent fs standards filePath =
     (if \<not> existsSync fs filePath then Inl (VALIDATION_FILE_NOT_FOUND filePath)
      else (case readFile fs filePath of
              Inl e \<Rightarrow> Inl (ReadThrows e)
            | Inr content \<Rightarrow>
                (let errors = quality_errors standards content
                 in if length errors > 0 then Inl (VALIDATION_QUALITY_FAILED filePath errors)
                    else Inr ())))"

section \<open>ContentChecker (scripts/content-checker.js)\<close>

text \<open>
  A finding is the path of the file and a message. The messages of the script are Russian
  sentences with values put in; the model keeps one constructor for each sentence, with
  the values. \<open>addIssue\<close> is called with the first five, \<open>addWarning\<close> with the rest.
\<close>

datatype checker_message =
    MissingFrontmatterField jsstring
  | NotEnoughContent nat
  | PlaceholderText
  | NotEnoughCodeExamples nat
  | CannotReadFile exn
  | DescriptionTooShort
  | UnusualEstimatedMinutes
  | FewHeadings
  | UnfinishedTODO
  | MissingSection jsstring
  | NoPackageDeclaration nat
  | ErrorsNotChecked nat
  | BrokenInternalLink jsstring
  | InvalidURL jsstring

text \<open>The state of a \<open>ContentChecker\<close>. The counters \<open>stats.issues\<close> and
  \<open>stats.warnings\<close> are the lengths of the two lists and are left out. Every tool of
  the repository keeps a list \<open>warnings\<close>; the records of their states share it.\<close>

record 'm advisory =
  warnings :: "'m list"

record checker = "(jsstring \<times> checker_message) advisory" +
  issues :: "(jsstring \<times> checker_message) list"
  totalFiles :: nat
  checkedFiles :: nat

definition new_checker :: checker where
  "new_checker = \<lparr>warnings = [], issues = [], totalFiles = 0, checkedFiles = 0\<rparr>"

definition addIssue :: "jsstring \<Rightarrow> checker_message \<Rightarrow> checker \<Rightarrow> checker" where
  "addIssue file message st = st\<lparr>issues := issues st @ [(file, message)]\<rparr>"

definition addWarning :: "jsstring \<Rightarrow> checker_message \<Rightarrow> checker \<Rightarrow> checker" where
  "addWarning file message st = st\<lparr>warnings := warnings st @ [(file, message)]\<rparr>"

text \<open>
  \<open>checkFrontmatter(frontmatter, filePath)\<close>. The first thing it does is to read a
  property of \<open>frontmatter\<close>, which throws when that is \<open>undefined\<close> or \<open>null\<close>.
\<close>

definition requiredFields :: "jsstring list" where
  "requiredFields = [js ''title'', js ''description'', js ''authorId'', js ''category'']"

definition checkFrontmatter :: "runtime \<Rightarrow> jsval \<Rightarrow> jsstring \<Rightarrow> checker \<Rightarrow> exn + checker" where
  "checkFrontmatter rt frontmatter filePath st =
     (if frontmatter = JUndefined \<or> frontmatter = JNull then Inl TypeError
      else
        (let st1 = fold (\<lambda>fld st. if \<not> truthy (field frontmatter fld)
                                   then addIssue filePath (MissingFrontmatterField fld) st
                                   else st) requiredFields st;
             description = field frontmatter (js ''description'');
             st2 = (if truthy description \<and> js_less rt (field description (js ''length'')) 50
                    then addWarning filePath DescriptionTooShort st1 else st1);
             estimatedMinutes = field frontmatter (js ''estimatedMinutes'');
             st3 = (if truthy estimatedMinutes
                       \<and> (js_less rt estimatedMinutes 5 \<or> js_greater rt estimatedMinutes 120)
                    then addWarning filePath UnusualEstimatedMinutes st2 else st2)
         in Inr st3))"

text \<open>
  \<open>/^#{1,6}\s+.+$/gm\<close>, a heading: at the start of a line, one to six \<open>#\<close> and no
  seventh, white space, and the rest of a line that is not empty. The white space may
  contain line terminators. When only white space follows up to the end of the text,
  \<open>\s+\<close> gives code units back from its end until \<open>.+\<close> finds one that is no line
  terminator.
\<close>

definition at_line_start :: "16 word option \<Rightarrow> bool" where
  "at_line_start prev = (case prev of None \<Rightarrow> True | Some c \<Rightarrow> isLineTerminator c)"

definition rest_of_line :: "jsstring \<Rightarrow> jsstring" where
  "rest_of_line s = takeWhile (\<lambda>c. \<not> isLineTerminator c) s"

definition heading :: matcher where
  "heading prev s =
     (let hashes = length (takeWhile (\<lambda>c. c = 0x23) s);
          rest = drop hashes s;
          spaces = length (takeWhile isSpace rest)
      in if \<not> at_line_start prev \<or> hashes < 1 \<or> hashes > 6 \<or> spaces < 1 then None
         else if spaces < length rest
         then Some (hashes + spaces + length (rest_of_line (drop spaces rest)))
         else (case filter (\<lambda>j. \<not> isLineTerminator (rest ! j)) (rev [1..<spaces]) of
                 [] \<Rightarrow> None
               | j # others \<Rightarrow> Some (hashes + j + length (rest_of_line (drop j rest)))))"

text \<open>\<open>/lorem\s+ipsum/i\<close>. Without the flag \<open>u\<close> a letter of the pattern matches
  its lower-case and its upper-case ASCII form and nothing else.\<close>

fun ci_prefix :: "jsstring \<Rightarrow> jsstring \<Rightarrow> bool" where
  "ci_prefix [] s = True"
| "ci_prefix (p # ps) [] = False"
| "ci_prefix (p # ps) (c # cs) = ((c = p \<or> c = p - 0x20) \<and> ci_prefix ps cs)"

definition lorem_ipsum :: matcher where
  "lorem_ipsum prev s =
     (let rest = drop 5 s;
          spaces = length (takeWhile isSpace rest)
      in if ci_prefix (js ''lorem'') s \<and> spaces > 0 \<and> ci_prefix (js ''ipsum'') (drop spaces rest)
         then Some (5 + spaces + 5) else None)"

text \<open>\<open>checkContent(markdown, filePath)\<close>.\<close>

definition checkContent :: "jsstring \<Rightarrow> jsstring \<Rightarrow> checker \<Rightarrow> checker" where
  "checkContent markdown filePath st =
     (let words = count_words markdown;
          st1 = (if words < 800 then addIssue filePath (NotEnoughContent words) st else st);
          headings = match_all heading None 0 markdown;
          st2 = (if length headings < 3 then addWarning filePath FewHeadings st1 else st1);
          st3 = (if includes_str markdown (js ''TODO'')
                 then addWarning filePath UnfinishedTODO st2 else st2);
          st4 = (if test_re lorem_ipsum None markdown
                 then addIssue filePath PlaceholderText st3 else st3)
      in st4)"

text \<open>\<open>checkStructure(markdown, filePath)\<close>. The four required sections are level-two
  headings in Russian, each behind an emoji: what you will learn, theory, practical
  examples, practical exercises.\<close>

definition requiredSections :: "jsstring list" where
  "requiredSections =
     [[0x23, 0x23, 0x20, 0xD83C, 0xDFAF, 0x20, 0x427, 0x442, 0x43E, 0x20, 0x432, 0x44B, 0x20,
       0x438, 0x437, 0x443, 0x447, 0x438, 0x442, 0x435],
      [0x23, 0x23, 0x20, 0xD83D, 0xDCDA, 0x20, 0x422, 0x435, 0x43E, 0x440, 0x435, 0x442, 0x438,
       0x447, 0x435, 0x441, 0x43A, 0x430, 0x44F, 0x20, 0x447, 0x430, 0x441, 0x442, 0x44C],
      [0x23, 0x23, 0x20, 0xD83D, 0xDCBB, 0x20, 0x41F, 0x440, 0x430, 0x43A, 0x442, 0x438, 0x447,
       0x435, 0x441, 0x43A, 0x438, 0x435, 0x20, 0x43F, 0x440, 0x438, 0x43C, 0x435, 0x440, 0x44B],
      [0x23, 0x23, 0x20, 0xD83C, 0xDFAF, 0x20, 0x41F, 0x440, 0x430, 0x43A, 0x442, 0x438, 0x447,
       0x435, 0x441, 0x43A, 0x438, 0x435, 0x20, 0x443, 0x43F, 0x440, 0x430, 0x436, 0x43D, 0x435,
       0x43D, 0x438, 0x44F]]"

definition checkStructure :: "jsstring \<Rightarrow> jsstring \<Rightarrow> checker \<Rightarrow> checker" where
  "checkStructure markdown filePath st =
     fold (\<lambda>sec st. if \<not> includes_str markdown sec
                     then addWarning filePath (MissingSection sec) st else st)
          requiredSections st"

text \<open>
  \<open>checkCodeExamples(markdown, filePath)\<close>. The text of a block is
  \<open>block.replace(/```go\n?/, '').replace(/\n?```/, '')\<close>: the first opening fence
  with the line feed behind it, then the first closing fence with the line feed before it.
\<close>

definition opening_fence :: matcher where
  "opening_fence prev s =
     (if prefix (js ''```go\<newline>'') s then Some 6
      else if prefix (js ''```go'') s then Some 5
      else None)"

definition closing_fence :: matcher where
  "closing_fence prev s =
     (if prefix (js ''\<newline>```'') s then Some 4
      else if prefix fence s then Some 3
      else None)"

definition block_code :: "jsstring \<Rightarrow> jsstring" where
  "block_code block = remove_first closing_fence None (remove_first opening_fence None block)"

definition check_block :: "jsstring \<Rightarrow> jsstring \<times> nat \<Rightarrow> checker \<Rightarrow> checker" where
  "check_block filePath = (\<lambda>(block, index) st.
     (let code = block_code block;
          st1 = (if \<not> includes_str code (js ''package '')
                 then addWarning filePath (NoPackageDeclaration (index + 1)) st else st);
          st2 = (if includes_str code (js ''err :='') \<and> \<not> includes_str code (js ''if err != nil'')
                 then addWarning filePath (ErrorsNotChecked (index + 1)) st1 else st1)
      in st2))"

definition checkCodeExamples :: "jsstring \<Rightarrow> jsstring \<Rightarrow> checker \<Rightarrow> checker" where
  "checkCodeExamples markdown filePath st =
     (let codeBlocks = match_all go_block None 0 markdown;
          st1 = (if length codeBlocks < 3
                 then addIssue filePath (NotEnoughCodeExamples (length codeBlocks)) st else st)
      in fold (check_block filePath) (zip codeBlocks [0..<length codeBlocks]) st1)"

text \<open>
  \<open>checkLinks(markdown, filePath)\<close>. The four expressions:
  \<^item> \<open>/\[([^\]]+)\]\((?!http)([^)]+)\)/g\<close>, a link whose target does not start with
    \<open>http\<close>;
  \<^item> \<open>/\(([^)]+)\)/\<close>, the first pair of parentheses, whose content is the path;
  \<^item> \<open>/\[([^\]]+)\]\((https?:\/\/[^)]+)\)/g\<close>, a link to a URL;
  \<^item> \<open>/\((https?:\/\/[^)]+)\)/\<close>, the first pair of parentheses around a URL.
  A class with \<open>+\<close> takes all the code units it can; the one behind it is then the
  delimiter or the match fails, so nothing is gained by giving code units back.
\<close>

definition bracketed :: "16 word \<Rightarrow> 16 word \<Rightarrow> jsstring \<Rightarrow> (jsstring \<times> jsstring) option" where
  "bracketed opening closing s =
     (case s of
        [] \<Rightarrow> None
      | c # cs \<Rightarrow>
          (let inner = takeWhile (\<lambda>x. x \<noteq> closing) cs;
               rest = dropWhile (\<lambda>x. x \<noteq> closing) cs
           in if c = opening \<and> inner \<noteq> [] \<and> rest \<noteq> [] then Some (inner, tl rest) else None))"

definition url_scheme :: "jsstring \<Rightarrow> bool" where
  "url_scheme s \<longleftrightarrow> prefix (js ''http://'') s \<or> prefix (js ''https://'') s"

definition url_rest :: "jsstring \<Rightarrow> jsstring" where
  "url_rest s = (if prefix (js ''https://'') s then drop 8 s else drop 7 s)"

definition internal_link :: matcher where
  "internal_link prev s =
     (case bracketed 0x5B 0x5D s of
        None \<Rightarrow> None
      | Some (label, rest) \<Rightarrow>
          (case bracketed 0x28 0x29 rest of
             None \<Rightarrow> None
           | Some (target, rest') \<Rightarrow>
               if prefix (js ''http'') target then None
               else Some (length label + length target + 4)))"

definition external_link :: matcher where
  "external_link prev s =
     (case bracketed 0x5B 0x5D s of
        None \<Rightarrow> None
      | Some (label, rest) \<Rightarrow>
          (case bracketed 0x28 0x29 rest of
             None \<Rightarrow> None
           | Some (target, rest') \<Rightarrow>
               if url_scheme target \<and> url_rest target \<noteq> []
               then Some (length label + length target + 4) else None))"

definition parenthesised :: matcher where
  "parenthesised prev s = map_option (\<lambda>(inner, rest). length inner + 2) (bracketed 0x28 0x29 s)"

definition parenthesised_url :: matcher where
  "parenthesised_url prev s =
     (case bracketed 0x28 0x29 s of
        None \<Rightarrow> None
      | Some (inner, rest) \<Rightarrow>
          if url_scheme inner \<and> url_rest inner \<noteq> [] then Some (length inner + 2) else None)"

text \<open>\<open>link.match(re)[1]\<close> for the two expressions with parentheses around their one
  group: the first match without its first and last code unit. The links come from the
  expressions above, so there is a match.\<close>

definition first_group :: "matcher \<Rightarrow> jsstring \<Rightarrow> jsstring" where
  "first_group m link =
     (case match_all m None 0 link of
        [] \<Rightarrow> []
      | whole # others \<Rightarrow> butlast (tl whole))"

definition check_internal_link :: "node \<Rightarrow> jsstring \<Rightarrow> jsstring \<Rightarrow> checker \<Rightarrow> checker" where
  "check_internal_link fs filePath link st =
     (let path = first_group parenthesised link
      in if \<not> prefix (js ''#'') path \<and> \<not> existsSync fs (path_join (js ''content'') path)
         then addWarning filePath (BrokenInternalLink path) st else st)"

definition check_external_link :: "runtime \<Rightarrow> jsstring \<Rightarrow> jsstring \<Rightarrow> checker \<Rightarrow> checker" where
  "check_external_link rt filePath link st =
     (let url = first_group parenthesised_url link
      in if \<not> URL_accepts rt url then addWarning filePath (InvalidURL url) st else st)"

definition checkLinks :: "runtime \<Rightarrow> node \<Rightarrow> jsstring \<Rightarrow> jsstring \<Rightarrow> checker \<Rightarrow> checker" where
  "checkLinks rt fs markdown filePath st =
     (let internalLinks = match_all internal_link None 0 markdown;
          st1 = fold (check_internal_link fs filePath) internalLinks st;
          externalLinks = match_all external_link None 0 markdown
      in fold (check_external_link rt filePath) externalLinks st1)"

text \<open>
  \<open>checkFile(filePath)\<close>: everything happens inside \<open>try\<close>, and the handler
  records an issue for the file. An exception can come from the read, from
  \<open>gray-matter\<close> and from the first property read of \<open>checkFrontmatter\<close>, all
  before the state is changed.
\<close>

definition checkFile :: "runtime \<Rightarrow> node \<Rightarrow> jsstring \<Rightarrow> checker \<Rightarrow> checker" where
  "checkFile rt fs filePath st =
     (case readFile fs filePath of
        Inl e \<Rightarrow> addIssue filePath (CannotReadFile e) st
      | Inr content \<Rightarrow>
          (case matter rt content of
             None \<Rightarrow> addIssue filePath (CannotReadFile YamlError) st
           | Some (frontmatter, markdown) \<Rightarrow>
               (let relativePath = path_relative filePath
                in case checkFrontmatter rt frontmatter relativePath st of
                     Inl e \<Rightarrow> addIssue filePath (CannotReadFile e) st
                   | Inr st1 \<Rightarrow>
                       checkLinks rt fs markdown relativePath
                         (checkCodeExamples markdown relativePath
                           (checkStructure markdown relativePath
                             (checkContent markdown relativePath st1))))))"

text \<open>
  \<open>findMarkdownFiles(dir)\<close>. The script lists \<open>dir\<close>, goes into every entry that is
  a directory by its path, and collects the other entries whose name ends with
  \<open>.md\<close>. The model walks the tree of the directory instead of looking each path up
  again.
\<close>

fun markdown_files :: "jsstring \<Rightarrow> node \<Rightarrow> jsstring list" where
  "markdown_files dir (File content) = []"
| "markdown_files dir (Dir entries) =
     concat (map (\<lambda>entry.
        (let fullPath = path_join dir (fst entry)
         in case snd entry of
              Dir sub \<Rightarrow> markdown_files fullPath (snd entry)
            | File content \<Rightarrow> if suffix (js ''.md'') (fst entry) then [fullPath] else [])) entries)"

definition findMarkdownFiles :: "node \<Rightarrow> jsstring \<Rightarrow> exn + jsstring list" where
  "findMarkdownFiles fs dir =
     (case lookup fs dir of
        Some (Dir entries) \<Rightarrow> Inr (markdown_files dir (Dir entries))
      | _ \<Rightarrow> Inl FsError)"

text \<open>
  \<open>run()\<close>, with what the process ends in: the exit code, the state, and the
  exception that the handler of \<open>run\<close> caught, if any. Without a directory
  \<open>content\<close> the method returns and the process ends with code 0.
\<close>

record 'st outcome =
  exitCode :: nat
  final :: 'st
  caught :: "exn option"

definition ContentChecker_run :: "runtime \<Rightarrow> node \<Rightarrow> checker outcome" where
  "ContentChecker_run rt fs =
     (if \<not> existsSync fs (js ''content'')
      then \<lparr>exitCode = 0, final = new_checker, caught = None\<rparr>
      else (case findMarkdownFiles fs (js ''content'') of
              Inl e \<Rightarrow> \<lparr>exitCode = 1, final = new_checker, caught = Some e\<rparr>
            | Inr files \<Rightarrow>
                (let st = fold (\<lambda>file st. (checkFile rt fs file st)
                                   \<lparr>checkedFiles := checkedFiles st + 1\<rparr>)
                               files (new_checker\<lparr>totalFiles := length files\<rparr>)
                 in \<lparr>exitCode = (if length (issues st) > 0 then 1 else 0),
                     final = st, caught = None\<rparr>)))"

section \<open>StructureValidator (scripts/structure-validator.js)\<close>

text \<open>
  The messages, one constructor for each sentence of the script. \<open>addError\<close> is called
  with the first sixteen, \<open>addWarning\<close> with the rest. Where a message shows
  \<open>category.slug\<close> or \<open>frontmatter.module\<close>, the constructor keeps the value.
\<close>

datatype structure_message =
    MissingRequiredItem jsstring
  | ContentDirectoryNotFound
  | ConfigReadError exn
  | MissingCategoryDirectory jsval
  | MissingCategoryIndex jsval
  | CategorySlugMismatch jsstring
  | MissingIndexField jsstring jsstring
  | IndexReadError jsstring exn
  | MissingTopicFile jsstring
  | MissingTopicField jsstring jsstring
  | TopicReadError jsstring exn
  | ConfigFileNotFound
  | MissingConfigSection jsstring
  | DuplicateCategorySlug jsval
  | MissingCategoryField jsstring jsval
  | ConfigParseError exn
  | MissingScript jsstring
  | NoTopicsInCategory jsstring
  | WrongTopicDirectoryName jsstring
  | WrongModuleNumber jsval jsstring
  | WrongDirectoryName jsstring
  | WrongFileName jsstring
  | BrokenTopicNumbering jsstring nat nat

record validator = "structure_message advisory" +
  errors :: "structure_message list"

definition new_validator :: validator where
  "new_validator = \<lparr>warnings = [], errors = []\<rparr>"

definition addError :: "structure_message \<Rightarrow> validator \<Rightarrow> validator" where
  "addError message st = st\<lparr>errors := errors st @ [message]\<rparr>"

definition sv_addWarning :: "structure_message \<Rightarrow> validator \<Rightarrow> validator" where
  "sv_addWarning message st = st\<lparr>warnings := warnings st @ [message]\<rparr>"

text \<open>
  A method that can throw ends either normally or with an exception; in both cases the
  lists keep what was added before.
\<close>

datatype 'st result =
    Done 'st
  | Thrown exn 'st

fun and_then :: "'st result \<Rightarrow> ('st \<Rightarrow> 'st result) \<Rightarrow> 'st result" where
  "and_then (Done st) f = f st"
| "and_then (Thrown e st) f = Thrown e st"

text \<open>A loop whose body can throw.\<close>

fun for_each :: "('a \<Rightarrow> 'st \<Rightarrow> 'st result) \<Rightarrow> 'a list \<Rightarrow> 'st \<Rightarrow> 'st result" where
  "for_each body [] st = Done st"
| "for_each body (x # xs) st = and_then (body x st) (for_each body xs)"

definition expected_root :: "jsstring list" where
  "expected_root =
     [js ''content'', js ''content.config.json'', js ''package.json'', js ''CONTRIBUTING.md'',
      js ''README.md'', js ''scripts'']"

definition expected_scripts :: "jsstring list" where
  "expected_scripts =
     [js ''content-author.js'', js ''content-checker.js'', js ''content-formatter.js'',
      js ''content-builder.js'', js ''git-sync.js'', js ''structure-validator.js'',
      js ''structure-generator.js'', js ''help.js'']"

text \<open>\<open>validateRootStructure()\<close>.\<close>

definition validateRootStructure :: "node \<Rightarrow> validator \<Rightarrow> validator" where
  "validateRootStructure fs st =
     (let st1 = fold (\<lambda>item st. if \<not> existsSync fs item
                                    then addError (MissingRequiredItem item) st else st)
                     expected_root st
      in if existsSync fs (js ''scripts'')
         then fold (\<lambda>script st. if \<not> existsSync fs (path_join (js ''scripts'') script)
                                  then sv_addWarning (MissingScript script) st else st)
                   expected_scripts st1
         else st1)"

text \<open>\<open>loadConfig()\<close>: the parsed configuration, or \<open>null\<close> and an error.\<close>

definition loadConfig :: "runtime \<Rightarrow> node \<Rightarrow> validator \<Rightarrow> jsval \<times> validator" where
  "loadConfig rt fs st =
     (case readFile fs (js ''content.config.json'') of
        Inl e \<Rightarrow> (JNull, addError (ConfigReadError e) st)
      | Inr configContent \<Rightarrow>
          (case JSON_parse rt configContent of
             None \<Rightarrow> (JNull, addError (ConfigReadError SyntaxError) st)
           | Some config \<Rightarrow> (config, st)))"

text \<open>\<open>a !== b\<close> is \<open>\<not> strict_equal a b\<close>. Two arrays or objects that come out
  of two parsers are never the same object.\<close>

fun strict_equal :: "jsval \<Rightarrow> jsval \<Rightarrow> bool" where
  "strict_equal (JArr xs) b = False"
| "strict_equal (JObj kvs) b = False"
| "strict_equal a b = (a = b)"

text \<open>
  \<open>validateCategoryIndex(indexPath, categoryConfig)\<close>: everything is inside \<open>try\<close>.
  The exceptions (the read, \<open>gray-matter\<close>, the first property read of a front
  matter that is \<open>undefined\<close> or \<open>null\<close>) come before the first \<open>addError\<close>.
\<close>

definition index_fields :: "jsstring list" where
  "index_fields = [js ''title'', js ''description'', js ''difficulty'', js ''authorId'']"

definition validateCategoryIndex ::
    "runtime \<Rightarrow> node \<Rightarrow> jsstring \<Rightarrow> jsval \<Rightarrow> validator \<Rightarrow> validator" where
  "validateCategoryIndex rt fs indexPath categoryConfig st =
     (case readFile fs indexPath of
        Inl e \<Rightarrow> addError (IndexReadError indexPath e) st
      | Inr content \<Rightarrow>
          (case matter rt content of
             None \<Rightarrow> addError (IndexReadError indexPath YamlError) st
           | Some (frontmatter, body) \<Rightarrow>
               if frontmatter = JUndefined \<or> frontmatter = JNull
               then addError (IndexReadError indexPath TypeError) st
               else
                 (let st1 = (if \<not> strict_equal (field frontmatter (js ''category''))
                                                 (field categoryConfig (js ''slug''))
                             then addError (CategorySlugMismatch indexPath) st else st)
                  in fold (\<lambda>fld st. if \<not> truthy (field frontmatter fld)
                                      then addError (MissingIndexField fld indexPath) st else st)
                          index_fields st1)))"

text \<open>
  \<open>validateTopicFile(topicPath)\<close>, inside \<open>try\<close> as well. The module number is
  compared with the constants 1 and 79.
\<close>

definition topic_fields :: "jsstring list" where
  "topic_fields =
     [js ''title'', js ''description'', js ''module'', js ''category'', js ''slug'',
      js ''difficulty'', js ''authorId'']"

definition validateTopicFile :: "runtime \<Rightarrow> node \<Rightarrow> jsstring \<Rightarrow> validator \<Rightarrow> validator" where
  "validateTopicFile rt fs topicPath st =
     (case readFile fs topicPath of
        Inl e \<Rightarrow> addError (TopicReadError (path_relative topicPath) e) st
      | Inr content \<Rightarrow>
          (case matter rt content of
             None \<Rightarrow> addError (TopicReadError (path_relative topicPath) YamlError) st
           | Some (frontmatter, body) \<Rightarrow>
               if frontmatter = JUndefined \<or> frontmatter = JNull
               then addError (TopicReadError (path_relative topicPath) TypeError) st
               else
                 (let st1 = fold (\<lambda>fld st. if \<not> truthy (field frontmatter fld)
                                then addError (MissingTopicField fld (path_relative topicPath)) st
                                else st)
                             topic_fields st;
                      module = field frontmatter (js ''module'')
                  in if truthy module \<and> (js_less rt module 1 \<or> js_greater rt module 79)
                     then sv_addWarning (WrongModuleNumber module (path_relative topicPath)) st1
                     else st1)))"

text \<open>\<open>/^\d{2}-/\<close>: two digits and a hyphen at the start of a name.\<close>

fun two_digits_hyphen :: "jsstring \<Rightarrow> bool" where
  "two_digits_hyphen (a # b # c # rest) = (isDigit a \<and> isDigit b \<and> c = 0x2D)"
| "two_digits_hyphen name = False"

text \<open>\<open>validateTopicsStructure(categoryPath)\<close>. Listing the directory is outside any
  \<open>try\<close> and throws when the path is no directory.\<close>

definition validate_topic_dir ::
    "runtime \<Rightarrow> node \<Rightarrow> jsstring \<Rightarrow> jsstring \<Rightarrow> validator \<Rightarrow> validator" where
  "validate_topic_dir rt fs categoryPath name st =
     (let topicPath = path_join categoryPath name;
          st1 = (if \<not> two_digits_hyphen name
                 then sv_addWarning (WrongTopicDirectoryName name) st else st);
          topicFile = path_join topicPath (js ''topic.md'')
      in if \<not> existsSync fs topicFile
         then addError (MissingTopicFile (path_relative topicPath)) st1
         else validateTopicFile rt fs topicFile st1)"

definition validateTopicsStructure ::
    "runtime \<Rightarrow> node \<Rightarrow> jsstring \<Rightarrow> validator \<Rightarrow> validator result" where
  "validateTopicsStructure rt fs categoryPath st =
     (case readdir fs categoryPath of
        Inl e \<Rightarrow> Thrown e st
      | Inr entries \<Rightarrow>
          (let topicDirs = map fst (filter snd entries);
               st1 = (if length topicDirs = 0
                      then sv_addWarning (NoTopicsInCategory (path_relative categoryPath)) st
                      else st)
           in Done (fold (validate_topic_dir rt fs categoryPath) topicDirs st1)))"

text \<open>
  \<open>for (const category of config.categories)\<close>: an array gives its elements, a string
  its characters (as strings), anything else is not iterable and throws a TypeError. A
  string is iterated by code points; the model lists its code units, which makes no
  difference to the loop below, whose body throws at any string.
\<close>

fun iterate :: "jsval \<Rightarrow> jsval list option" where
  "iterate (JArr xs) = Some xs"
| "iterate (JStr s) = Some (map (\<lambda>c. JStr [c]) s)"
| "iterate v = None"

text \<open>
  The body of the loop of \<open>validateContentStructure\<close>. \<open>category.slug\<close> throws
  when the category is \<open>null\<close>, and \<open>path.join\<close> throws when the slug is no string;
  neither is inside a \<open>try\<close>.
\<close>

definition validate_category ::
    "runtime \<Rightarrow> node \<Rightarrow> jsval \<Rightarrow> validator \<Rightarrow> validator result" where
  "validate_category rt fs category st =
     (case get_prop category (js ''slug'') of
        Some (JStr slug) \<Rightarrow>
          (let categoryPath = path_join (js ''content'') slug
           in if \<not> existsSync fs categoryPath
              then Done (addError (MissingCategoryDirectory (JStr slug)) st)
              else
                (let indexPath = path_join categoryPath (js ''index.md'');
                     st1 = (if \<not> existsSync fs indexPath
                            then addError (MissingCategoryIndex (JStr slug)) st
                            else validateCategoryIndex rt fs indexPath category st)
                 in validateTopicsStructure rt fs categoryPath st1))
      | _ \<Rightarrow> Thrown TypeError st)"

text \<open>\<open>validateContentStructure()\<close>.\<close>

definition validateContentStructure :: "runtime \<Rightarrow> node \<Rightarrow> validator \<Rightarrow> validator result" where
  "validateContentStructure rt fs st =
     (if \<not> existsSync fs (js ''content'') then Done (addError ContentDirectoryNotFound st)
      else
        (case loadConfig rt fs st of
           (config, st1) \<Rightarrow>
             if \<not> truthy config then Done st1
             else (case iterate (field config (js ''categories'')) of
                     None \<Rightarrow> Thrown TypeError st1
                   | Some categories \<Rightarrow> for_each (validate_category rt fs) categories st1)))"

text \<open>
  \<open>validateConfiguration()\<close>. After the check that the file exists, everything is
  inside \<open>try\<close>, and the handler adds one error. An exception inside the loop over
  the categories (a category that is \<open>null\<close>) ends the loop; the errors added before
  stay.
\<close>

definition requiredSections_config :: "jsstring list" where
  "requiredSections_config = [js ''structure'', js ''categories'', js ''quality'', js ''godojo'']"

definition category_fields :: "jsstring list" where
  "category_fields = [js ''slug'', js ''titleRu'', js ''modules'', js ''difficulty'']"

text \<open>\<open>slugs.has(v)\<close> for a \<open>Set\<close>: strings, numbers, booleans, \<open>null\<close> and
  \<open>undefined\<close> are found by their value, an array or an object only if it is the
  same object, which two values of a parsed file never are.\<close>

fun set_has :: "jsval list \<Rightarrow> jsval \<Rightarrow> bool" where
  "set_has slugs (JArr xs) = False"
| "set_has slugs (JObj kvs) = False"
| "set_has slugs v = (v \<in> set slugs)"

fun check_categories :: "jsval list \<Rightarrow> jsval list \<Rightarrow> validator \<Rightarrow> validator" where
  "check_categories slugs [] st = st"
| "check_categories slugs (category # categories) st =
     (case get_prop category (js ''slug'') of
        None \<Rightarrow> addError (ConfigParseError TypeError) st
      | Some slug \<Rightarrow>
          (let st1 = (if set_has slugs slug then addError (DuplicateCategorySlug slug) st else st);
               st2 = fold (\<lambda>fld st.
                        if \<not> truthy (field category fld)
                        then addError (MissingCategoryField fld
                                         (if truthy slug then slug else JStr (js ''unknown''))) st
                        else st)
                      category_fields st1
           in check_categories (slug # slugs) categories st2))"

definition validateConfiguration :: "runtime \<Rightarrow> node \<Rightarrow> validator \<Rightarrow> validator" where
  "validateConfiguration rt fs st =
     (if \<not> existsSync fs (js ''content.config.json'') then addError ConfigFileNotFound st
      else
        (case readFile fs (js ''content.config.json'') of
           Inl e \<Rightarrow> addError (ConfigParseError e) st
         | Inr content \<Rightarrow>
             (case JSON_parse rt content of
                None \<Rightarrow> addError (ConfigParseError SyntaxError) st
              | Some config \<Rightarrow>
                  if config = JUndefined \<or> config = JNull
                  then addError (ConfigParseError TypeError) st
                  else
                    (let st1 = fold (\<lambda>sec st. if \<not> truthy (field config sec)
                                                 then addError (MissingConfigSection sec) st
                                                 else st)
                                    requiredSections_config st;
                         categories = field config (js ''categories'')
                     in if truthy categories \<and> is_array categories
                        then check_categories [] (array_items categories) st1
                        else st1))))"

text \<open>
  The names: \<open>/^[a-z0-9-]+$/\<close> for a directory and \<open>/^[a-z0-9-]+\.md$/\<close> for a
  Markdown file.
\<close>

definition name_unit :: "16 word \<Rightarrow> bool" where
  "name_unit c \<longleftrightarrow> (0x61 \<le> c \<and> c \<le> 0x7A) \<or> isDigit c \<or> c = 0x2D"

definition directory_name :: "jsstring \<Rightarrow> bool" where
  "directory_name name \<longleftrightarrow> name \<noteq> [] \<and> list_all name_unit name"

definition markdown_name :: "jsstring \<Rightarrow> bool" where
  "markdown_name name \<longleftrightarrow>
     suffix (js ''.md'') name \<and> directory_name (take (length name - 3) name)"

text \<open>
  \<open>checkNaming(dir)\<close>. As for \<open>findMarkdownFiles\<close>, the model walks the tree of the
  directory instead of listing each path again.
\<close>

fun naming_walk :: "jsstring \<Rightarrow> node \<Rightarrow> validator \<Rightarrow> validator" where
  "naming_walk dir (File content) st = st"
| "naming_walk dir (Dir entries) st =
     fold (\<lambda>entry st.
        (let fullPath = path_join dir (fst entry)
         in case snd entry of
              Dir sub \<Rightarrow>
                naming_walk fullPath (snd entry)
                  (if \<not> directory_name (fst entry)
                   then sv_addWarning (WrongDirectoryName (path_relative fullPath)) st else st)
            | File content \<Rightarrow>
                if suffix (js ''.md'') (fst entry) \<and> \<not> markdown_name (fst entry)
                then sv_addWarning (WrongFileName (path_relative fullPath)) st else st))
       entries st"

text \<open>\<open>validateNamingConventions()\<close>: listing \<open>content\<close> throws when it is a file.\<close>

definition validateNamingConventions :: "node \<Rightarrow> validator \<Rightarrow> validator result" where
  "validateNamingConventions fs st =
     (if \<not> existsSync fs (js ''content'') then Done st
      else (case lookup fs (js ''content'') of
              Some (Dir entries) \<Rightarrow> Done (naming_walk (js ''content'') (Dir entries) st)
            | _ \<Rightarrow> Thrown FsError st))"

text \<open>
  \<open>validateIntegrity()\<close>: in every directory of \<open>content\<close>, the numbers in front
  of the names of the topic directories, sorted, must be 1, 2, 3 and so on; the first
  number that is not is reported.
\<close>

fun topic_number :: "jsstring \<Rightarrow> nat" where
  "topic_number (a # b # rest) = 10 * (unat a - 48) + (unat b - 48)"
| "topic_number name = 0"

fun first_gap :: "nat \<Rightarrow> nat list \<Rightarrow> (nat \<times> nat) option" where
  "first_gap expected [] = None"
| "first_gap expected (n # ns) =
     (if n \<noteq> expected then Some (expected, n) else first_gap (expected + 1) ns)"

definition check_numbering :: "jsstring \<times> node \<Rightarrow> validator \<Rightarrow> validator" where
  "check_numbering = (\<lambda>(name, n) st.
     (case n of
        File content \<Rightarrow> st
      | Dir topics \<Rightarrow>
          (let names = map fst (filter (\<lambda>topic. is_dir (snd topic)) topics);
               topicNumbers = sort (map topic_number (filter two_digits_hyphen names))
           in case first_gap 1 topicNumbers of
                None \<Rightarrow> st
              | Some (expected, found) \<Rightarrow>
                  sv_addWarning (BrokenTopicNumbering name expected found) st)))"

definition validateIntegrity :: "node \<Rightarrow> validator \<Rightarrow> validator result" where
  "validateIntegrity fs st =
     (if \<not> existsSync fs (js ''content'') then Done st
      else (case lookup fs (js ''content'') of
              Some (Dir categories) \<Rightarrow> Done (fold check_numbering categories st)
            | _ \<Rightarrow> Thrown FsError st))"

text \<open>
  \<open>run()\<close>: the five checks in their order, then
  \<open>process.exit(this.errors.length > 0 ? 1 : 0)\<close>; the handler of \<open>run\<close> ends
  the process with code 1.
\<close>

definition StructureValidator_checks :: "runtime \<Rightarrow> node \<Rightarrow> validator result" where
  "StructureValidator_checks rt fs =
     and_then
       (and_then (validateContentStructure rt fs (validateRootStructure fs new_validator))
                 (\<lambda>st. validateNamingConventions fs (validateConfiguration rt fs st)))
       (validateIntegrity fs)"

definition StructureValidator_run :: "runtime \<Rightarrow> node \<Rightarrow> validator outcome" where
  "StructureValidator_run rt fs =
     (case StructureValidator_checks rt fs of
        Done st \<Rightarrow>
          \<lparr>exitCode = (if length (errors st) > 0 then 1 else 0), final = st, caught = None\<rparr>
      | Thrown e st \<Rightarrow> \<lparr>exitCode = 1, final = st, caught = Some e\<rparr>)"

text \<open>
  Two conditions on the input of a run. The directory \<open>content\<close> is readable when it
  is a directory or does not exist. The categories are well formed when the configuration,
  if it can be read and parsed and is truthy, has an array \<open>categories\<close> whose entries
  each have a string as \<open>slug\<close>, and no file stands where the directory of a
  category is expected.
\<close>

definition content_readable :: "node \<Rightarrow> bool" where
  "content_readable fs =
     (case lookup fs (js ''content'') of
        Some (File content) \<Rightarrow> False
      | _ \<Rightarrow> True)"

definition category_well_formed :: "node \<Rightarrow> jsval \<Rightarrow> bool" where
  "category_well_formed fs category =
     (case get_prop category (js ''slug'') of
        Some (JStr slug) \<Rightarrow>
          (case lookup fs (path_join (js ''content'') slug) of
             Some (File content) \<Rightarrow> False
           | _ \<Rightarrow> True)
      | _ \<Rightarrow> False)"

definition categories_well_formed :: "runtime \<Rightarrow> node \<Rightarrow> bool" where
  "categories_well_formed rt fs =
     (case readFile fs (js ''content.config.json'') of
        Inl e \<Rightarrow> True
      | Inr configContent \<Rightarrow>
          (case JSON_parse rt configContent of
             None \<Rightarrow> True
           | Some config \<Rightarrow>
               \<not> truthy config \<or>
               (case field config (js ''categories'') of
                  JArr categories \<Rightarrow> list_all (category_well_formed fs) categories
                | _ \<Rightarrow> False)))"

section \<open>ContentBuilder (scripts/content-builder.js)\<close>

text \<open>
  \<open>countWords(text)\<close>:
  \<^verbatim>\<open>
  const cleanText = text
      .replace(/```[\s\S]*?```/g, '')
      .replace(/^---[\s\S]*?---/m, '');
  return cleanText.split(/\s+/).filter(word => word.length > 0).length;
  \<close>
  The second expression has the flag \<open>m\<close>: its \<open>^\<close> matches at the start of
  every line. Without the flag \<open>g\<close> the first match is replaced: the first three
  hyphens at the start of a line that have three more hyphens somewhere behind them, up
  to and including those.
\<close>

definition hyphen_span :: matcher where
  "hyphen_span prev s =
     (if at_line_start prev then delimited (js ''---'') (js ''---'') s else None)"

definition cleanText :: "jsstring \<Rightarrow> jsstring" where
  "cleanText text = remove_first hyphen_span None (remove_fences text)"

definition ContentBuilder_countWords :: "jsstring \<Rightarrow> nat" where
  "ContentBuilder_countWords text = count_words (cleanText text)"

text \<open>\<open>s.trim()\<close>: white space and line terminators go from both ends.\<close>

definition trim :: "jsstring \<Rightarrow> jsstring" where
  "trim s = rev (dropWhile isSpace (rev (dropWhile isSpace s)))"

text \<open>The text before the first occurrence of a literal, or all of it: what a lazy
  \<open>[\s\S]*?\<close> takes in front of \<open>(?=lit|$)\<close>.\<close>

definition until_first :: "jsstring \<Rightarrow> jsstring \<Rightarrow> jsstring" where
  "until_first lit s = (case split_first lit s of None \<Rightarrow> s | Some (before, rest) \<Rightarrow> before)"

text \<open>
  \<open>markdown.split(/^## (.+)$/gm)\<close>: the text before the first heading of level two,
  and for each such heading its text (the group) and what follows up to the next one. A
  heading is a line that starts with \<open>## \<close> and goes on with at least one more code
  unit.
\<close>

function split_sections :: "bool \<Rightarrow> jsstring \<Rightarrow> jsstring \<times> (jsstring \<times> jsstring) list" where
  "split_sections line_start [] = ([], [])"
| "split_sections line_start (c # cs) =
     (if line_start \<and> prefix (js ''## '') (c # cs) \<and> rest_of_line (drop 3 (c # cs)) \<noteq> []
      then (case split_sections False
                   (drop (3 + length (rest_of_line (drop 3 (c # cs)))) (c # cs)) of
              (content, later) \<Rightarrow> ([], (rest_of_line (drop 3 (c # cs)), content) # later))
      else (case split_sections (isLineTerminator c) cs of
              (before, later) \<Rightarrow> (c # before, later)))"
  by pat_completeness auto
termination
  by (relation "measure (\<lambda>(line_start, s). length s)") auto

text \<open>
  \<open>/### (.+?)\n([\s\S]*?)(?=###|$)/g\<close>, an example: \<open>### \<close>, a title that is
  not empty and ends at the first line terminator, which must be a line feed, and the body up
  to the next \<open>###\<close> or the end of the text. The second component is the title, the
  third the body.
\<close>

definition titled_block :: "jsstring \<Rightarrow> (nat \<times> jsstring \<times> jsstring) option" where
  "titled_block s =
     (let title = rest_of_line s;
          after = drop (length title) s
      in if title \<noteq> [] \<and> prefix (js ''\<newline>'') after
         then (let body = until_first (js ''###'') (drop 1 after)
               in Some (length title + 1 + length body, title, body))
         else None)"

definition example_block :: "jsstring \<Rightarrow> (nat \<times> jsstring \<times> jsstring) option" where
  "example_block s =
     (if prefix (js ''### '') s
      then map_option (\<lambda>(n, title, body). (4 + n, title, body)) (titled_block (drop 4 s))
      else None)"

text \<open>\<open>/```go\n([\s\S]*?)\n```/\<close>: the first block of Go code with a line feed
  behind the opening fence and another one before the closing fence; the group is what is
  between the two line feeds.\<close>

definition go_code :: matcher where
  "go_code prev s = delimited (js ''```go\<newline>'') (js ''\<newline>```'') s"

definition first_go_code :: "jsstring \<Rightarrow> jsstring option" where
  "first_go_code s =
     (case match_all go_code None 0 s of
        [] \<Rightarrow> None
      | whole # others \<Rightarrow> Some (take (length whole - 10) (drop 6 whole)))"

text \<open>\<open>extractCodeExamples(content)\<close>: one object for each match.\<close>

definition make_example :: "jsstring \<Rightarrow> jsval" where
  "make_example whole =
     (case example_block whole of
        None \<Rightarrow> JUndefined
      | Some (n, title_group, body_group) \<Rightarrow>
          (let title = trim title_group;
               exampleContent = trim body_group;
               code = (case first_go_code exampleContent of None \<Rightarrow> [] | Some c \<Rightarrow> c);
               explanation = trim (remove_all go_code None 0 exampleContent)
           in JObj [(js ''title'', JStr title), (js ''code'', JStr code),
                    (js ''explanation'', JStr explanation)]))"

definition extractCodeExamples :: "jsstring \<Rightarrow> jsval list" where
  "extractCodeExamples content =
     map make_example (match_all (\<lambda>prev s. map_option fst (example_block s)) None 0 content)"

text \<open>
  \<open>/### Uprazhnenie (\d+): (.+?)\n([\s\S]*?)(?=###|$)/g\<close>, an exercise: the heading of
  an exercise with its number, a colon and a blank, then title and body as for an example.
  \<open>parseInt\<close> reads the digits as a decimal number.
\<close>

definition exercise_block :: "jsstring \<Rightarrow> (nat \<times> jsstring \<times> jsstring \<times> jsstring) option" where
  "exercise_block s =
     (if prefix exercise_heading s then
        (let rest = drop (length exercise_heading) s;
             digits = takeWhile isDigit rest;
             after = dropWhile isDigit rest
         in if digits \<noteq> [] \<and> prefix (js '': '') after
            then map_option
                   (\<lambda>(n, title, body).
                      (length exercise_heading + length digits + 2 + n, digits, title, body))
                   (titled_block (drop 2 after))
            else None)
      else None)"

definition parseInt :: "jsstring \<Rightarrow> nat" where
  "parseInt digits = foldl (\<lambda>n d. 10 * n + (unat d - 48)) 0 digits"

definition make_exercise :: "jsstring \<Rightarrow> jsval" where
  "make_exercise whole =
     (case exercise_block whole of
        None \<Rightarrow> JUndefined
      | Some (n, digits, title_group, body_group) \<Rightarrow>
          JObj [(js ''number'', JNum (of_nat (parseInt digits))),
                (js ''title'', JStr (trim title_group)),
                (js ''content'', JStr (trim body_group))])"

definition extractExercises :: "jsstring \<Rightarrow> jsval list" where
  "extractExercises content =
     map make_exercise (match_all (\<lambda>prev s. map_option fst (exercise_block s)) None 0 content)"

text \<open>
  \<open>parseMarkdown(markdown)\<close>. The \<open>switch\<close> knows seven headings, each an emoji and
  Russian words: theory, practical examples, practical exercises, best practices, common
  mistakes, use in the real world, summary. Other headings are skipped. The result is the
  object \<open>sections\<close>; an assignment to one of its properties keeps the place of the
  property.
\<close>

definition heading_theory :: jsstring where
  "heading_theory =
     [0xD83D, 0xDCDA, 0x20, 0x422, 0x435, 0x43E, 0x440, 0x435, 0x442, 0x438, 0x447, 0x435, 0x441,
      0x43A, 0x430, 0x44F, 0x20, 0x447, 0x430, 0x441, 0x442, 0x44C]"

definition heading_examples :: jsstring where
  "heading_examples =
     [0xD83D, 0xDCBB, 0x20, 0x41F, 0x440, 0x430, 0x43A, 0x442, 0x438, 0x447, 0x435, 0x441, 0x43A,
      0x438, 0x435, 0x20, 0x43F, 0x440, 0x438, 0x43C, 0x435, 0x440, 0x44B]"

definition heading_exercises :: jsstring where
  "heading_exercises =
     [0xD83C, 0xDFAF, 0x20, 0x41F, 0x440, 0x430, 0x43A, 0x442, 0x438, 0x447, 0x435, 0x441, 0x43A,
      0x438, 0x435, 0x20, 0x443, 0x43F, 0x440, 0x430, 0x436, 0x43D, 0x435, 0x43D, 0x438, 0x44F]"

definition heading_bestPractices :: jsstring where
  "heading_bestPractices =
     [0xD83D, 0xDD27, 0x20, 0x41B, 0x443, 0x447, 0x448, 0x438, 0x435, 0x20, 0x43F, 0x440, 0x430,
      0x43A, 0x442, 0x438, 0x43A, 0x438]"

definition heading_commonMistakes :: jsstring where
  "heading_commonMistakes =
     [0x26A0, 0xFE0F, 0x20, 0x427, 0x430, 0x441, 0x442, 0x44B, 0x435, 0x20, 0x43E, 0x448, 0x438,
      0x431, 0x43A, 0x438]"

definition heading_realWorld :: jsstring where
  "heading_realWorld =
     [0xD83C, 0xDF0D, 0x20, 0x41F, 0x440, 0x438, 0x43C, 0x435, 0x43D, 0x435, 0x43D, 0x438, 0x435,
      0x20, 0x432, 0x20, 0x440, 0x435, 0x430, 0x43B, 0x44C, 0x43D, 0x43E, 0x43C, 0x20, 0x43C,
      0x438, 0x440, 0x435]"

definition heading_summary :: jsstring where
  "heading_summary = [0xD83D, 0xDCDD, 0x20, 0x420, 0x435, 0x437, 0x44E, 0x43C, 0x435]"

definition empty_sections :: "(jsstring \<times> jsval) list" where
  "empty_sections =
     [(js ''theory'', JStr []), (js ''examples'', JArr []), (js ''exercises'', JArr []),
      (js ''bestPractices'', JStr []), (js ''commonMistakes'', JStr []),
      (js ''realWorld'', JStr []), (js ''summary'', JStr [])]"

definition assign_section ::
    "jsstring \<times> jsstring \<Rightarrow> (jsstring \<times> jsval) list \<Rightarrow> (jsstring \<times> jsval) list" where
  "assign_section = (\<lambda>(heading, content) sections.
     if heading = heading_theory
     then AList.update (js ''theory'') (JStr (trim content)) sections
     else if heading = heading_examples
     then AList.update (js ''examples'') (JArr (extractCodeExamples content)) sections
     else if heading = heading_exercises
     then AList.update (js ''exercises'') (JArr (extractExercises content)) sections
     else if heading = heading_bestPractices
     then AList.update (js ''bestPractices'') (JStr (trim content)) sections
     else if heading = heading_commonMistakes
     then AList.update (js ''commonMistakes'') (JStr (trim content)) sections
     else if heading = heading_realWorld
     then AList.update (js ''realWorld'') (JStr (trim content)) sections
     else if heading = heading_summary
     then AList.update (js ''summary'') (JStr (trim content)) sections
     else sections)"

definition parseMarkdown :: "jsstring \<Rightarrow> (jsstring \<times> jsval) list" where
  "parseMarkdown markdown = fold assign_section (snd (split_sections True markdown)) empty_sections"

text \<open>
  What the builder takes from outside the repository besides the parsers: the two
  serialisers, the conversion of a value that is no string to a string inside a template
  literal, and \<open>Math.min\<close> and \<open>Math.max\<close>.
\<close>

record output_env =
  JSON_stringify :: "jsval \<Rightarrow> jsstring"
  yaml_stringify :: "jsval \<Rightarrow> jsstring"
  ToString :: "jsval \<Rightarrow> jsstring"
  Math_min :: "jsval list \<Rightarrow> jsval"
  Math_max :: "jsval list \<Rightarrow> jsval"


text \<open>
  An object literal: the properties in their order, a later one with the same key taking
  the place of the earlier one. \<open>...v\<close> gives the own properties of \<open>v\<close>: those of
  an object, the indexed code units of a string, the indexed elements of an array, and
  nothing for any other value.
\<close>

definition object_of :: "(jsstring \<times> jsval) list \<Rightarrow> (jsstring \<times> jsval) list" where
  "object_of properties = foldl (\<lambda>obj (key, v). AList.update key v obj) [] properties"

fun spread :: "output_env \<Rightarrow> jsval \<Rightarrow> (jsstring \<times> jsval) list" where
  "spread env (JObj kvs) = kvs"
| "spread env (JStr s) =
     map (\<lambda>i. (ToString env (JNum (of_nat i)), JStr [s ! i])) [0..<length s]"
| "spread env (JArr xs) =
     map (\<lambda>i. (ToString env (JNum (of_nat i)), xs ! i)) [0..<length xs]"
| "spread env v = []"



text \<open>The state of a \<open>ContentBuilder\<close>: the map of the categories in the order of
  its keys, the topics, and the four counters of \<open>stats\<close>.\<close>

record builder =
  categories :: "(jsstring \<times> jsval) list"
  topics :: "jsval list"
  stats_categories :: nat
  stats_topics :: nat
  stats_exercises :: nat
  stats_codeExamples :: nat


text \<open>
  The object \<open>topic\<close> of \<open>scanTopic\<close>: the front matter, then \<open>category\<close>,
  \<open>content\<close> and \<open>stats\<close>. The reading time is
  \<open>Math.ceil(this.countWords(markdown) / 200)\<close>.
\<close>

definition topic_stats :: "jsstring \<Rightarrow> (jsstring \<times> jsval) list \<Rightarrow> jsval" where
  "topic_stats markdown parsed =
     JObj [(js ''wordCount'', JNum (of_nat (ContentBuilder_countWords markdown))),
           (js ''codeExamples'', field (field (JObj parsed) (js ''examples'')) (js ''length'')),
           (js ''exercises'', field (field (JObj parsed) (js ''exercises'')) (js ''length'')),
           (js ''readingTime'',
              JNum (of_int \<lceil>(of_nat (ContentBuilder_countWords markdown) :: rat) / 200\<rceil>))]"

definition topic_content :: "(jsstring \<times> jsval) list \<Rightarrow> jsval" where
  "topic_content parsed =
     JObj (map (\<lambda>key. (key, field (JObj parsed) key))
            [js ''theory'', js ''examples'', js ''exercises'', js ''bestPractices'',
             js ''commonMistakes'', js ''realWorld'', js ''summary''])"

definition make_topic :: "output_env \<Rightarrow> jsval \<Rightarrow> jsstring \<Rightarrow> jsstring \<Rightarrow> jsval" where
  "make_topic env frontmatter markdown categorySlug =
     (let parsed = parseMarkdown markdown
      in JObj (object_of (spread env frontmatter @
                 [(js ''category'', JStr categorySlug),
                  (js ''content'', topic_content parsed),
                  (js ''stats'', topic_stats markdown parsed)])))"












section \<open>The exporter's playground fields (scripts/godojo-validator.js, GoDojoPrepare)\<close>

definition package_main :: jsstring where
  "package_main = js ''package main''"

definition func_main :: jsstring where
  "func_main = js ''func main()''"

text \<open>
  \<open>isRunnableCode(code)\<close>:
  \<^verbatim>\<open>return code.includes('package main') && code.includes('func main()');\<close>
\<close>

definition isRunnableCode :: "jsstring \<Rightarrow> bool" where
  "isRunnableCode code \<longleftrightarrow> includes_str code package_main \<and> includes_str code func_main"

text \<open>
  \<open>generatePlaygroundTemplate(code)\<close>: a complete program is returned as it is,
  anything else is put into the template literal
  \<^verbatim>\<open>package main\n\nimport (\n    "fmt"\n)\n\nfunc main() {\n    ${...}\n}\<close>
  where the hole is \<open>code.split('\n').map(line => '    ' + line).join('\n')\<close>.
  (Code unit 0x22 is the double quote, 0x0A the line feed.)
\<close>

definition template_head :: jsstring where
  "template_head =
     js ''package main\<newline>\<newline>import (\<newline>    '' @ [0x22] @ js ''fmt'' @ [0x22] @
     js ''\<newline>)\<newline>\<newline>func main() {\<newline>    ''"

definition template_tail :: jsstring where
  "template_tail = js ''\<newline>}''"

definition generatePlaygroundTemplate :: "jsstring \<Rightarrow> jsstring" where
  "generatePlaygroundTemplate code =
     (if includes_str code package_main \<and> includes_str code func_main then code
      else template_head
           @ join_str (js ''\<newline>'') (map (\<lambda>line. js ''    '' @ line) (split_unit 0x0A code))
           @ template_tail)"

section \<open>Example inputs\<close>

text \<open>
  A small project for the witnesses and counterexamples: the directory \<open>content\<close>
  with the category \<open>basics\<close>, its \<open>index.md\<close> and one topic \<open>01-intro\<close>,
  the configuration, and the other files and scripts that the StructureValidator expects.
  The parsers are parameters of the model, so the files hold short texts that stand for
  their JSON and YAML, and the example runtime gives the values: the configuration with
  the given list of categories, the front matter of the index, and the front matter of
  the topic with the given module number. The category \<open>basics\<close> declares the modules
  \<open>1-15\<close>.
\<close>

definition fixture_category :: jsval where
  "fixture_category =
     JObj [(js ''slug'', JStr (js ''basics'')), (js ''titleRu'', JStr (js ''Osnovy'')),
           (js ''modules'', JStr (js ''1-15'')), (js ''difficulty'', JStr (js ''Beginner''))]"

definition fixture_config :: "jsval list \<Rightarrow> jsval" where
  "fixture_config cats =
     JObj [(js ''structure'', JObj []), (js ''categories'', JArr cats),
           (js ''quality'', JObj []), (js ''godojo'', JObj [])]"

definition fixture_index :: jsval where
  "fixture_index =
     JObj [(js ''title'', JStr (js ''Basics'')), (js ''description'', JStr (js ''The basics'')),
           (js ''category'', JStr (js ''basics'')), (js ''difficulty'', JStr (js ''Beginner'')),
           (js ''authorId'', JStr (js ''author_1''))]"

definition fixture_topic :: "rat \<Rightarrow> jsval" where
  "fixture_topic m =
     JObj [(js ''title'', JStr (js ''Intro'')), (js ''description'', JStr (js ''An introduction'')),
           (js ''module'', JNum m), (js ''category'', JStr (js ''basics'')),
           (js ''slug'', JStr (js ''intro'')), (js ''difficulty'', JStr (js ''Beginner'')),
           (js ''authorId'', JStr (js ''author_1''))]"

definition fixture_runtime :: "jsval \<Rightarrow> rat \<Rightarrow> runtime" where
  "fixture_runtime config m =
     \<lparr>JSON_parse = (\<lambda>s. if s = js ''config'' then Some config else None),
      matter = (\<lambda>s. if s = js ''topic'' then Some (fixture_topic m, [])
                     else if s = js ''index'' then Some (fixture_index, [])
                     else Some (JObj [], s)),
      ToNumber = (\<lambda>v. None),
      URL_accepts = (\<lambda>s. True)\<rparr>"

definition fixture_scripts :: node where
  "fixture_scripts = Dir (map (\<lambda>name. (name, File [])) expected_scripts)"

definition fixture_tree :: "node \<Rightarrow> node" where
  "fixture_tree basics =
     Dir [(js ''content'', Dir [(js ''basics'', basics)]),
          (js ''content.config.json'', File (js ''config'')),
          (js ''package.json'', File []),
          (js ''CONTRIBUTING.md'', File []),
          (js ''README.md'', File []),
          (js ''scripts'', fixture_scripts)]"

definition fixture_basics :: node where
  "fixture_basics =
     Dir [(js ''index.md'', File (js ''index'')),
          (js ''01-intro'', Dir [(js ''topic.md'', File (js ''topic''))])]"



text \<open>A runtime whose \<open>gray-matter\<close> finds no front matter in any text, and a tree
  with one Markdown file.\<close>

definition plain_runtime :: runtime where
  "plain_runtime =
     \<lparr>JSON_parse = (\<lambda>s. None), matter = (\<lambda>s. Some (JObj [], s)),
      ToNumber = (\<lambda>v. None), URL_accepts = (\<lambda>s. True)\<rparr>"

definition one_file_tree :: node where
  "one_file_tree = Dir [(js ''content'', Dir [(js ''a.md'', File (js ''x''))])]"


section \<open>Facts about the string operations\<close>

subsection \<open>Counting words\<close>














lemma includes_str_sublist: "includes_str s pat \<longleftrightarrow> sublist pat s"
  by (induction s) (auto simp: sublist_Cons_right)

lemma sublist_template_head_package: "sublist package_main template_head"
proof -
  have "prefix package_main template_head"
    by (simp add: package_main_def template_head_def js_def)
  then show ?thesis by (rule prefix_imp_sublist)
qed

lemma sublist_template_head_func: "sublist func_main template_head"
proof -
  have "template_head =
      (js ''package main\<newline>\<newline>import (\<newline>    '' @ [0x22] @ js ''fmt'' @ [0x22] @
       js ''\<newline>)\<newline>\<newline>'') @ func_main @ js '' {\<newline>    ''"
    by (simp add: template_head_def func_main_def js_def)
  then show ?thesis unfolding sublist_def by blast
qed

lemma sublist_append_left: "sublist p a \<Longrightarrow> sublist p (a @ b)"
  by (metis sublist_append)

subsection \<open>What the word counter of the ContentValidator takes out\<close>



















subsection \<open>The findings of the ContentChecker and of the ContentValidator\<close>

lemma issues_addIssue [simp]: "issues (addIssue file message st) = issues st @ [(file, message)]"
  by (simp add: addIssue_def)

lemma issues_addWarning [simp]: "issues (addWarning file message st) = issues st"
  by (simp add: addWarning_def)


lemma checkContent_issues:
  "issues (checkContent markdown filePath st) =
     issues st
     @ (if count_words markdown < 800 then [(filePath, NotEnoughContent (count_words markdown))] else [])
     @ (if test_re lorem_ipsum None markdown then [(filePath, PlaceholderText)] else [])"
  by (simp add: checkContent_def Let_def)

lemma issues_update_other [simp]:
  "issues (st\<lparr>checkedFiles := n\<rparr>) = issues st"
  "issues (st\<lparr>totalFiles := n\<rparr>) = issues st"
  by simp_all

lemma checkFrontmatter_issues:
  "checkFrontmatter rt frontmatter filePath st = Inr st' \<Longrightarrow>
   issues st' = issues st @ map (\<lambda>fld. (filePath, MissingFrontmatterField fld))
                              (filter (\<lambda>fld. \<not> truthy (field frontmatter fld)) requiredFields)"
  by (auto simp: checkFrontmatter_def Let_def requiredFields_def split: if_splits)

lemma checkStructure_issues [simp]: "issues (checkStructure markdown filePath st) = issues st"
  by (simp add: checkStructure_def requiredSections_def)

lemma fold_check_block_issues [simp]: "issues (fold (check_block filePath) blocks st) = issues st"
  by (induction blocks arbitrary: st) (auto simp: check_block_def Let_def)

lemma checkCodeExamples_issues:
  "issues (checkCodeExamples markdown filePath st) =
     issues st @ (if length (match_all go_block None 0 markdown) < 3
                  then [(filePath, NotEnoughCodeExamples (length (match_all go_block None 0 markdown)))]
                  else [])"
  by (simp add: checkCodeExamples_def Let_def)

lemma fold_check_internal_link_issues [simp]:
  "issues (fold (check_internal_link fs filePath) links st) = issues st"
  by (induction links arbitrary: st) (auto simp: check_internal_link_def Let_def)

lemma fold_check_external_link_issues [simp]:
  "issues (fold (check_external_link rt filePath) links st) = issues st"
  by (induction links arbitrary: st) (auto simp: check_external_link_def Let_def)

lemma checkLinks_issues [simp]: "issues (checkLinks rt fs markdown filePath st) = issues st"
  by (simp add: checkLinks_def Let_def)

text \<open>What \<open>checkFile\<close> adds to the issues does not depend on the state.\<close>

definition file_issues :: "runtime \<Rightarrow> node \<Rightarrow> jsstring \<Rightarrow> (jsstring \<times> checker_message) list" where
  "file_issues rt fs filePath = issues (checkFile rt fs filePath new_checker)"

lemma checkFrontmatter_Inl:
  "checkFrontmatter rt frontmatter filePath st = Inl e \<longleftrightarrow>
   (frontmatter = JUndefined \<or> frontmatter = JNull) \<and> e = TypeError"
  by (auto simp: checkFrontmatter_def Let_def)

lemma checkFile_issues: "issues (checkFile rt fs filePath st) = issues st @ file_issues rt fs filePath"
proof (cases "readFile fs filePath")
  case (Inl e)
  then show ?thesis by (simp add: checkFile_def file_issues_def new_checker_def)
next
  case (Inr content)
  show ?thesis
  proof (cases "matter rt content")
    case None
    with Inr show ?thesis by (simp add: checkFile_def file_issues_def new_checker_def)
  next
    case (Some fm)
    obtain frontmatter markdown where fm: "fm = (frontmatter, markdown)" by (cases fm)
    show ?thesis
    proof (cases "frontmatter = JUndefined \<or> frontmatter = JNull")
      case True
      then have "\<And>s. checkFrontmatter rt frontmatter (path_relative filePath) s = Inl TypeError"
        by (simp add: checkFrontmatter_Inl)
      with Inr Some fm show ?thesis
        by (simp add: checkFile_def file_issues_def new_checker_def)
    next
      case False
      then obtain st1 where s1: "checkFrontmatter rt frontmatter (path_relative filePath) st = Inr st1"
        by (cases "checkFrontmatter rt frontmatter (path_relative filePath) st")
           (auto simp: checkFrontmatter_Inl)
      from False obtain st0 where
        s0: "checkFrontmatter rt frontmatter (path_relative filePath) new_checker = Inr st0"
        by (cases "checkFrontmatter rt frontmatter (path_relative filePath) new_checker")
           (auto simp: checkFrontmatter_Inl)
      from Inr Some fm s1 s0 show ?thesis
        by (simp add: checkFile_def file_issues_def Let_def checkCodeExamples_issues
            checkContent_issues checkFrontmatter_issues [OF s1] checkFrontmatter_issues [OF s0]
            new_checker_def)
    qed
  qed
qed

lemma fold_checkFile_issues:
  "issues (fold (\<lambda>file st. (checkFile rt fs file st)\<lparr>checkedFiles := g st\<rparr>) files st)
   = issues st @ concat (map (file_issues rt fs) files)"
  by (induction files arbitrary: st) (simp_all add: checkFile_issues)

lemma missing_field_in_file_issues:
  assumes "readFile fs filePath = Inr content"
    and "matter rt content = Some (JObj kvs, markdown)"
    and "fld \<in> {js ''title'', js ''description'', js ''authorId'', js ''category''}"
    and "map_of kvs fld = None"
  shows "(path_relative filePath, MissingFrontmatterField fld) \<in> set (file_issues rt fs filePath)"
proof -
  obtain st0 where
    s0: "checkFrontmatter rt (JObj kvs) (path_relative filePath) new_checker = Inr st0"
    by (cases "checkFrontmatter rt (JObj kvs) (path_relative filePath) new_checker")
       (auto simp: checkFrontmatter_Inl)
  have "fld \<in> set requiredFields" "\<not> truthy (field (JObj kvs) fld)"
    using assms(3,4) by (auto simp: requiredFields_def field_def)
  then have "(path_relative filePath, MissingFrontmatterField fld) \<in> set (issues st0)"
    by (simp add: checkFrontmatter_issues [OF s0])
  with assms(1,2) s0 show ?thesis
    by (simp add: file_issues_def checkFile_def Let_def checkCodeExamples_issues checkContent_issues)
qed

lemma ContentChecker_run_issues:
  assumes "lookup fs (js ''content'') = Some (Dir entries)"
  shows "issues (final (ContentChecker_run rt fs))
         = concat (map (file_issues rt fs) (markdown_files (js ''content'') (Dir entries)))"
    and "exitCode (ContentChecker_run rt fs) = (if issues (final (ContentChecker_run rt fs)) = [] then 0 else 1)"
    and "caught (ContentChecker_run rt fs) = None"
  using assms
  by (simp_all add: ContentChecker_run_def existsSync_def findMarkdownFiles_def Let_def
      fold_checkFile_issues new_checker_def del: markdown_files.simps)

lemma one_file_tree_lookup:
  "lookup one_file_tree (js ''content'') = Some (Dir [(js ''a.md'', File (js ''x''))])"
  by (simp add: one_file_tree_def lookup_def path_segments_def js_def slash_def)

lemma one_file_tree_files:
  "markdown_files (js ''content'') (Dir [(js ''a.md'', File (js ''x''))]) = [js ''content/a.md'']"
  by (simp add: path_join_def path_normalize_def path_segments_def js_def slash_def suffix_def)

lemma one_file_tree_read: "readFile one_file_tree (js ''content/a.md'') = Inr (js ''x'')"
  by (simp add: readFile_def one_file_tree_def lookup_def path_segments_def js_def slash_def)

subsection \<open>The findings of the StructureValidator\<close>

lemma errors_addError [simp]: "errors (addError message st) = errors st @ [message]"
  by (simp add: addError_def)

lemma warnings_addError [simp]: "warnings (addError message st) = warnings st"
  by (simp add: addError_def)

lemma errors_sv_addWarning [simp]: "errors (sv_addWarning message st) = errors st"
  by (simp add: sv_addWarning_def)

lemma warnings_sv_addWarning [simp]: "warnings (sv_addWarning message st) = warnings st @ [message]"
  by (simp add: sv_addWarning_def)

lemma fold_addError_warnings [simp]:
  "warnings (fold (\<lambda>x st. if P x then addError (f x) st else st) xs st) = warnings st"
  by (induction xs arbitrary: st) simp_all


lemma fold_sv_addWarning_errors [simp]:
  "errors (fold (\<lambda>x st. if P x then sv_addWarning (f x) st else st) xs st) = errors st"
  by (induction xs arbitrary: st) simp_all

lemma fold_preserves_errors:
  "(\<And>x st. x \<in> set xs \<Longrightarrow> errors (f x st) = errors st) \<Longrightarrow> errors (fold f xs st) = errors st"
  by (induction xs arbitrary: st) simp_all

subsection \<open>The StructureValidator: the module number\<close>



subsection \<open>The StructureValidator: when a run is not aborted\<close>

lemma lookup_Dir_readdir:
  "lookup fs p = Some (Dir entries) \<Longrightarrow> \<exists>listing. readdir fs p = Inr listing"
  by (simp add: readdir_def)

lemma validateTopicsStructure_Done:
  "lookup fs p = Some (Dir entries) \<Longrightarrow> \<exists>st'. validateTopicsStructure rt fs p st = Done st'"
  by (simp add: validateTopicsStructure_def readdir_def Let_def)

lemma validate_category_Done:
  assumes "category_well_formed fs category"
  shows "\<exists>st'. validate_category rt fs category st = Done st'"
proof -
  from assms obtain slug where slug: "get_prop category (js ''slug'') = Some (JStr slug)"
    by (auto simp: category_well_formed_def split: option.splits jsval.splits)
  let ?p = "path_join (js ''content'') slug"
  show ?thesis
  proof (cases "existsSync fs ?p")
    case False
    with slug show ?thesis by (simp add: validate_category_def Let_def)
  next
    case True
    with assms slug obtain entries where "lookup fs ?p = Some (Dir entries)"
      by (auto simp: category_well_formed_def existsSync_def split: option.splits node.splits)
    then have "\<And>s. \<exists>st'. validateTopicsStructure rt fs ?p s = Done st'"
      by (rule validateTopicsStructure_Done)
    with True slug show ?thesis by (simp add: validate_category_def Let_def)
  qed
qed

lemma for_each_validate_category_Done:
  "list_all (category_well_formed fs) cats \<Longrightarrow>
   \<exists>st'. for_each (validate_category rt fs) cats st = Done st'"
proof (induction cats arbitrary: st)
  case Nil
  show ?case by simp
next
  case (Cons c cs)
  then obtain st1 where "validate_category rt fs c st = Done st1"
    using validate_category_Done by fastforce
  moreover from Cons obtain st2 where "for_each (validate_category rt fs) cs st1 = Done st2"
    by fastforce
  ultimately show ?case by simp
qed

lemma validateContentStructure_Done:
  assumes "categories_well_formed rt fs"
  shows "\<exists>st'. validateContentStructure rt fs st = Done st'"
proof (cases "existsSync fs (js ''content'')")
  case False
  then show ?thesis by (simp add: validateContentStructure_def)
next
  case True
  show ?thesis
  proof (cases "readFile fs (js ''content.config.json'')")
    case (Inl e)
    with True show ?thesis by (simp add: validateContentStructure_def loadConfig_def)
  next
    case (Inr configContent)
    show ?thesis
    proof (cases "JSON_parse rt configContent")
      case None
      with True Inr show ?thesis by (simp add: validateContentStructure_def loadConfig_def)
    next
      case (Some config)
      show ?thesis
      proof (cases "truthy config")
        case False
        with True Inr Some show ?thesis by (simp add: validateContentStructure_def loadConfig_def)
      next
        case truthy: True
        with assms Inr Some obtain cats where
          cats: "field config (js ''categories'') = JArr cats"
          and wf: "list_all (category_well_formed fs) cats"
          by (auto simp: categories_well_formed_def split: jsval.splits)
        from wf obtain st' where "for_each (validate_category rt fs) cats st = Done st'"
          using for_each_validate_category_Done by blast
        with True Inr Some truthy cats show ?thesis
          by (simp add: validateContentStructure_def loadConfig_def)
      qed
    qed
  qed
qed

lemma validateNamingConventions_Done:
  "content_readable fs \<Longrightarrow> \<exists>st'. validateNamingConventions fs st = Done st'"
  by (auto simp: validateNamingConventions_def content_readable_def existsSync_def
      split: option.splits node.splits)

lemma validateIntegrity_Done:
  "content_readable fs \<Longrightarrow> \<exists>st'. validateIntegrity fs st = Done st'"
  by (auto simp: validateIntegrity_def content_readable_def existsSync_def
      split: option.splits node.splits)

lemma StructureValidator_not_aborted:
  assumes "content_readable fs" and "categories_well_formed rt fs"
  shows "caught (StructureValidator_run rt fs) = None"
proof -
  obtain st1 where 1: "validateContentStructure rt fs (validateRootStructure fs new_validator) = Done st1"
    using validateContentStructure_Done [OF assms(2)] by blast
  obtain st2 where 2: "validateNamingConventions fs (validateConfiguration rt fs st1) = Done st2"
    using validateNamingConventions_Done [OF assms(1)] by blast
  obtain st3 where 3: "validateIntegrity fs st2 = Done st3"
    using validateIntegrity_Done [OF assms(1)] by blast
  from 1 2 3 show ?thesis
    by (simp add: StructureValidator_run_def StructureValidator_checks_def)
qed

lemma StructureValidator_exit:
  "exitCode (StructureValidator_run rt fs) \<noteq> 0 \<longleftrightarrow>
     errors (final (StructureValidator_run rt fs)) \<noteq> [] \<or> caught (StructureValidator_run rt fs) \<noteq> None"
  by (simp add: StructureValidator_run_def split: result.splits)

lemma ContentChecker_exit:
  "exitCode (ContentChecker_run rt fs) \<noteq> 0 \<longleftrightarrow>
     issues (final (ContentChecker_run rt fs)) \<noteq> [] \<or> caught (ContentChecker_run rt fs) \<noteq> None"
  by (simp add: ContentChecker_run_def new_checker_def Let_def split: sum.splits)

lemma ContentChecker_not_aborted:
  "content_readable fs \<Longrightarrow> caught (ContentChecker_run rt fs) = None"
  by (auto simp: ContentChecker_run_def content_readable_def existsSync_def findMarkdownFiles_def
      Let_def split: option.splits node.splits)

subsection \<open>The StructureValidator: duplicated slugs\<close>

lemma set_has_Cons: "set_has slugs v \<Longrightarrow> set_has (x # slugs) v"
  by (cases v) simp_all





lemma naming_walk_errors [simp]: "errors (naming_walk dir n st) = errors st"
proof (induction n arbitrary: dir st)
  case (File content)
  show ?case by simp
next
  case (Dir entries)
  have ih: "\<And>name sub d s. (name, Dir sub) \<in> set entries \<Longrightarrow>
              errors (naming_walk d (Dir sub) s) = errors s"
  proof -
    fix name sub d s
    assume "(name, Dir sub) \<in> set entries"
    moreover have "Dir sub \<in> Basic_BNFs.snds (name, Dir sub)" by simp
    ultimately show "errors (naming_walk d (Dir sub) s) = errors s"
      using Dir.IH by blast
  qed
  have step: "\<And>entry s. entry \<in> set entries \<Longrightarrow>
      errors ((\<lambda>entry st.
        (let fullPath = path_join dir (fst entry)
         in case snd entry of
              Dir sub \<Rightarrow>
                naming_walk fullPath (snd entry)
                  (if \<not> directory_name (fst entry)
                   then sv_addWarning (WrongDirectoryName (path_relative fullPath)) st else st)
            | File content \<Rightarrow>
                if suffix (js ''.md'') (fst entry) \<and> \<not> markdown_name (fst entry)
                then sv_addWarning (WrongFileName (path_relative fullPath)) st else st)) entry s)
      = errors s"
  proof -
    fix entry s
    assume mem: "entry \<in> set entries"
    obtain name n where entry: "entry = (name, n)" by (cases entry)
    show "errors ((\<lambda>entry st.
        (let fullPath = path_join dir (fst entry)
         in case snd entry of
              Dir sub \<Rightarrow>
                naming_walk fullPath (snd entry)
                  (if \<not> directory_name (fst entry)
                   then sv_addWarning (WrongDirectoryName (path_relative fullPath)) st else st)
            | File content \<Rightarrow>
                if suffix (js ''.md'') (fst entry) \<and> \<not> markdown_name (fst entry)
                then sv_addWarning (WrongFileName (path_relative fullPath)) st else st)) entry s)
      = errors s"
    proof (cases n)
      case (File content)
      with entry show ?thesis by (simp add: Let_def)
    next
      case inner: (Dir sub)
      with entry mem have "(name, Dir sub) \<in> set entries" by simp
      then have "\<And>d s. errors (naming_walk d (Dir sub) s) = errors s" by (rule ih)
      with entry inner show ?thesis by (simp add: Let_def del: naming_walk.simps)
    qed
  qed
  show ?case
    unfolding naming_walk.simps by (rule fold_preserves_errors) (rule step)
qed

lemma check_numbering_errors [simp]: "errors (check_numbering entry st) = errors st"
  by (auto simp: check_numbering_def Let_def split: node.splits option.splits prod.splits)



subsection \<open>The topics of the ContentBuilder\<close>

lemma object_of_last: "map_of (object_of (properties @ [(key, v)])) key = Some v"
  by (simp add: object_of_def AList.update_conv')

lemma make_topic_stats:
  "field (make_topic env frontmatter markdown categorySlug) (js ''stats'')
   = topic_stats markdown (parseMarkdown markdown)"
proof -
  have "map_of (object_of ((spread env frontmatter @
                 [(js ''category'', JStr categorySlug),
                  (js ''content'', topic_content (parseMarkdown markdown))]) @
                 [(js ''stats'', topic_stats markdown (parseMarkdown markdown))])) (js ''stats'')
        = Some (topic_stats markdown (parseMarkdown markdown))"
    by (rule object_of_last)
  then show ?thesis
    by (simp add: make_topic_def field_def Let_def)
qed

lemma topic_stats_fields:
  "field (topic_stats markdown parsed) (js ''wordCount'')
     = JNum (of_nat (ContentBuilder_countWords markdown))"
  "field (topic_stats markdown parsed) (js ''readingTime'')
     = JNum (of_int \<lceil>(of_nat (ContentBuilder_countWords markdown) :: rat) / 200\<rceil>)"
  by (simp_all add: topic_stats_def field_def js_def)

lemma reading_time_of_topic:
  "field (field (make_topic env frontmatter markdown categorySlug) (js ''stats'')) (js ''readingTime'')
     = JNum (of_int \<lceil>(of_nat (ContentBuilder_countWords markdown) :: rat) / 200\<rceil>)
   \<and> field (field (make_topic env frontmatter markdown categorySlug) (js ''stats'')) (js ''wordCount'')
     = JNum (of_nat (ContentBuilder_countWords markdown))"
  by (simp add: make_topic_stats topic_stats_fields)

section \<open>Claims\<close>

text \<open>
  C6. For every code example snippet the exporter's \<open>runnable\<close> flag is true exactly
  when the snippet contains both the marker \<open>package main\<close> and the marker
  \<open>func main()\<close>; and the playground template emitted for a snippet contains both
  markers. The second part is proved for every snippet, so in particular for the ones
  that lack the markers and are wrapped in the boilerplate.
\<close>

theorem C6_runnable_and_template:
  "(isRunnableCode code \<longleftrightarrow> sublist package_main code \<and> sublist func_main code)
   \<and> sublist package_main (generatePlaygroundTemplate code)
   \<and> sublist func_main (generatePlaygroundTemplate code)"
proof -
  have run: "isRunnableCode code \<longleftrightarrow> sublist package_main code \<and> sublist func_main code"
    by (simp add: isRunnableCode_def includes_str_sublist)
  have pkg: "sublist package_main (generatePlaygroundTemplate code)"
    by (simp add: generatePlaygroundTemplate_def includes_str_sublist
        sublist_append_left sublist_template_head_package)
  have fn: "sublist func_main (generatePlaygroundTemplate code)"
    by (simp add: generatePlaygroundTemplate_def includes_str_sublist
        sublist_append_left sublist_template_head_func)
  from run pkg fn show ?thesis by blast
qed






text \<open>
  C8. A run of the ContentChecker over a project whose directory \<open>content\<close> holds a
  Markdown file whose front matter (a mapping) has no \<open>title\<close>, \<open>description\<close>,
  \<open>authorId\<close> or \<open>category\<close> ends with a blocking issue for that field under the
  path of the file among its issues, and with exit code 1.
\<close>

theorem C8_missing_required_field:
  assumes "lookup fs (js ''content'') = Some (Dir entries)"
    and "filePath \<in> set (markdown_files (js ''content'') (Dir entries))"
    and "readFile fs filePath = Inr content"
    and "matter rt content = Some (JObj kvs, markdown)"
    and "fld \<in> {js ''title'', js ''description'', js ''authorId'', js ''category''}"
    and "map_of kvs fld = None"
  shows "(path_relative filePath, MissingFrontmatterField fld)
           \<in> set (issues (final (ContentChecker_run rt fs)))
         \<and> exitCode (ContentChecker_run rt fs) = 1"
proof -
  have "(path_relative filePath, MissingFrontmatterField fld) \<in> set (file_issues rt fs filePath)"
    using assms(3-6) by (rule missing_field_in_file_issues)
  with assms(2) have "(path_relative filePath, MissingFrontmatterField fld)
      \<in> set (issues (final (ContentChecker_run rt fs)))"
    by (auto simp: ContentChecker_run_issues(1) [OF assms(1)])
  moreover from this have "exitCode (ContentChecker_run rt fs) = 1"
    by (auto simp: ContentChecker_run_issues(2) [OF assms(1)])
  ultimately show ?thesis by simp
qed

theorem C8_witness:
  "(js ''content/a.md'', MissingFrontmatterField (js ''title''))
      \<in> set (issues (final (ContentChecker_run plain_runtime one_file_tree)))
   \<and> exitCode (ContentChecker_run plain_runtime one_file_tree) = 1"
proof -
  have rel: "path_relative (js ''content/a.md'') = js ''content/a.md''"
    by (simp add: path_relative_def path_segments_def js_def slash_def)
  have "(path_relative (js ''content/a.md''), MissingFrontmatterField (js ''title''))
      \<in> set (issues (final (ContentChecker_run plain_runtime one_file_tree)))
   \<and> exitCode (ContentChecker_run plain_runtime one_file_tree) = 1"
    by (rule C8_missing_required_field [where content = "js ''x''" and kvs = "[]" and markdown = "js ''x''",
          OF one_file_tree_lookup])
       (simp_all add: one_file_tree_files one_file_tree_read plain_runtime_def
          del: markdown_files.simps)
  then show ?thesis by (simp only: rel)
qed



text \<open>
  C2 (as amended). The exit code of the quality check and of the structure validation is
  not zero exactly when a blocking finding (an issue, an error) was recorded or an
  exception reached the handler of \<open>run\<close>. Over a readable directory \<open>content\<close>
  the quality check is never aborted, and over a readable directory \<open>content\<close> and
  well-formed categories the structure validation is never aborted; there the exit code is
  not zero exactly when a blocking finding was recorded.
\<close>

theorem C2_exit_code:
  "(exitCode (ContentChecker_run rt fs) \<noteq> 0 \<longleftrightarrow>
      issues (final (ContentChecker_run rt fs)) \<noteq> [] \<or> caught (ContentChecker_run rt fs) \<noteq> None)
   \<and> (exitCode (StructureValidator_run rt fs) \<noteq> 0 \<longleftrightarrow>
      errors (final (StructureValidator_run rt fs)) \<noteq> [] \<or> caught (StructureValidator_run rt fs) \<noteq> None)
   \<and> (content_readable fs \<longrightarrow>
        (exitCode (ContentChecker_run rt fs) \<noteq> 0 \<longleftrightarrow> issues (final (ContentChecker_run rt fs)) \<noteq> []))
   \<and> (content_readable fs \<and> categories_well_formed rt fs \<longrightarrow>
        (exitCode (StructureValidator_run rt fs) \<noteq> 0 \<longleftrightarrow> errors (final (StructureValidator_run rt fs)) \<noteq> []))"
  using ContentChecker_exit [of rt fs] StructureValidator_exit [of rt fs]
    ContentChecker_not_aborted [of fs rt] StructureValidator_not_aborted [of fs rt]
  by auto


text \<open>
  C2 as it is stated does not hold for the structure validation: over the example project,
  whose directory \<open>content\<close> is readable, and a configuration that is the empty object,
  the loop over \<open>config.categories\<close> throws, and the run ends with exit code 1 and no
  finding at all.
\<close>

theorem C2_counterexample:
  "content_readable (fixture_tree fixture_basics)
   \<and> StructureValidator_run (fixture_runtime (JObj []) 1) (fixture_tree fixture_basics)
       = \<lparr>exitCode = 1, final = \<lparr>warnings = [], errors = []\<rparr>, caught = Some TypeError\<rparr>"
  by code_simp

theorem C2_witness:
  "content_readable (fixture_tree fixture_basics)
   \<and> categories_well_formed (fixture_runtime (fixture_config [fixture_category]) 1) (fixture_tree fixture_basics)
   \<and> (exitCode (ContentChecker_run (fixture_runtime (fixture_config [fixture_category]) 1) (fixture_tree fixture_basics)) \<noteq> 0
        \<longleftrightarrow> issues (final (ContentChecker_run (fixture_runtime (fixture_config [fixture_category]) 1) (fixture_tree fixture_basics))) \<noteq> [])
   \<and> (exitCode (StructureValidator_run (fixture_runtime (fixture_config [fixture_category]) 1) (fixture_tree fixture_basics)) \<noteq> 0
        \<longleftrightarrow> errors (final (StructureValidator_run (fixture_runtime (fixture_config [fixture_category]) 1) (fixture_tree fixture_basics))) \<noteq> [])"
proof -
  have r: "content_readable (fixture_tree fixture_basics)"
    by code_simp
  have w: "categories_well_formed (fixture_runtime (fixture_config [fixture_category]) 1) (fixture_tree fixture_basics)"
    by code_simp
  from r w C2_exit_code [of "fixture_runtime (fixture_config [fixture_category]) 1" "fixture_tree fixture_basics"]
  show ?thesis by blast
qed














text \<open>
  C9. The reading time of a built topic is the ceiling of its word count divided by 200
  (\<open>reading_time_of_topic\<close>). The word count, however, is not the number of words
  that are left when the fenced blocks and a leading front matter are taken out: for the
  body below, which has no fenced block and does not start with front matter, but has two
  lines of three hyphens, \<open>countWords\<close> drops everything from the first of them to
  the second and counts 2 words, where the body has 6.
\<close>

theorem C9_failing_input:
  "topic_stats (js ''a\<newline>---\<newline>b c\<newline>---\<newline>d'')
               (parseMarkdown (js ''a\<newline>---\<newline>b c\<newline>---\<newline>d''))
     = JObj [(js ''wordCount'', JNum 2), (js ''codeExamples'', JNum 0),
             (js ''exercises'', JNum 0), (js ''readingTime'', JNum 1)]
   \<and> remove_fences (js ''a\<newline>---\<newline>b c\<newline>---\<newline>d'')
     = js ''a\<newline>---\<newline>b c\<newline>---\<newline>d''
   \<and> count_words (js ''a\<newline>---\<newline>b c\<newline>---\<newline>d'') = 6"
  by code_simp


end
